theory Spec2Isabelle
  imports Complex_Main
begin

text \<open>
  The playback logic of the class \<open>MusicPlayer\<close> of \<open>music_player.py\<close>: the title lookup
  \<open>get_song_info\<close>, the backend methods \<open>_backend_*\<close> (written here without the leading
  underscore), \<open>select_playlist\<close>, \<open>play_song\<close>, \<open>check_song_end\<close>, \<open>next_song\<close>,
  \<open>previous_song\<close>, \<open>stop_song\<close>, \<open>set_volume\<close>, \<open>update_progress\<close> and
  \<open>remove_song_from_current_playlist\<close>. The player is a record that each method takes and
  returns; a method that can raise returns a sum, with the exception on the left.
\<close>

section \<open>Python values used by the player\<close>

text \<open>
  A Python \<open>str\<close> is a sequence of Unicode code points; it is modelled as a list of
  naturals, one per code point. \<open>str\<close> turns an ASCII literal into that representation.
  A Python float is modelled by the \<open>real\<close> it denotes: comparisons, \<open>min\<close> and \<open>max\<close>
  are exact on floats. The quotients of the progress display are idealised (no rounding);
  the arithmetic of the volume, whose result is truncated to an integer, is rounded as
  CPython rounds it, by \<open>fl\<close> below.
\<close>

type_synonym pystr = "nat list"

definition str :: "string \<Rightarrow> pystr" where
  "str s = map of_char s"

text \<open>
  The source distinguishes only \<open>pygame.error\<close> from every other exception; both carry the
  message that \<open>str(e)\<close> returns.
\<close>

datatype exn = PygameError pystr | PyException pystr

fun exn_str :: "exn \<Rightarrow> pystr" where
  "exn_str (PygameError m) = m"
| "exn_str (PyException m) = m"

definition IndexError :: exn where
  "IndexError = PyException (str ''list index out of range'')"

definition KeyError :: "pystr \<Rightarrow> exn" where
  "KeyError k = PyException ([39] @ k @ [39])"

text \<open>List subscription \<open>xs[i]\<close>: a negative index counts from the end, an index out of range raises.\<close>

definition py_index :: "'a list \<Rightarrow> int \<Rightarrow> exn + 'a" where
  "py_index xs i =
     (let n = int (length xs) in
      if 0 \<le> i \<and> i < n then Inr (xs ! nat i)
      else if - n \<le> i \<and> i < 0 then Inr (xs ! nat (n + i))
      else Inl IndexError)"

text \<open>\<open>c.isspace()\<close>, which is also the class \<open>\s\<close> of \<open>re\<close> on a \<open>str\<close> pattern.\<close>

definition py_isspace :: "nat \<Rightarrow> bool" where
  "py_isspace c \<longleftrightarrow>
     (9 \<le> c \<and> c \<le> 13) \<or> (28 \<le> c \<and> c \<le> 32) \<or> c = 133 \<or> c = 160 \<or> c = 5760 \<or>
     (8192 \<le> c \<and> c \<le> 8202) \<or> c = 8232 \<or> c = 8233 \<or> c = 8239 \<or> c = 8287 \<or> c = 12288"

text \<open>\<open>s.strip()\<close>\<close>

definition py_strip :: "pystr \<Rightarrow> pystr" where
  "py_strip s = rev (dropWhile py_isspace (rev (dropWhile py_isspace s)))"

text \<open>\<open>s.startswith(p)\<close> and \<open>sub in s\<close>\<close>

fun startswith :: "pystr \<Rightarrow> pystr \<Rightarrow> bool" where
  "startswith [] s = True"
| "startswith (p # ps) [] = False"
| "startswith (p # ps) (c # cs) = (p = c \<and> startswith ps cs)"

fun py_in :: "pystr \<Rightarrow> pystr \<Rightarrow> bool" where
  "py_in sub [] = (sub = [])"
| "py_in sub (c # cs) = (startswith sub (c # cs) \<or> py_in sub cs)"

text \<open>
  \<open>s.split(sep)\<close> for a non-empty separator: the occurrences are found from left to right
  and do not overlap. \<open>acc\<close> holds the current part, reversed.
\<close>

function split_acc :: "pystr \<Rightarrow> pystr \<Rightarrow> pystr \<Rightarrow> pystr list" where
  "split_acc sep acc [] = [rev acc]"
| "split_acc sep acc (c # cs) =
     (if startswith sep (c # cs) then rev acc # split_acc sep [] (drop (length sep - 1) cs)
      else split_acc sep (c # acc) cs)"
  by pat_completeness auto
termination
  by (relation "measure (\<lambda>(sep, acc, s). length s)") auto

definition py_split :: "pystr \<Rightarrow> pystr \<Rightarrow> pystr list" where
  "py_split sep s = split_acc sep [] s"

subsection \<open>Rounding to a float\<close>

text \<open>
  A float of CPython is an IEEE 754 binary64 number, and \<open>float(x)\<close>, \<open>x / y\<close> and \<open>x * y\<close>
  return the exact result rounded to the nearest such number, ties to the one with an even
  significand. \<open>fl\<close> is that rounding on the reals: a number with binary exponent \<open>e\<close>
  (at least \<open>-1022\<close>, below which the numbers are subnormal and equally spaced) is rounded to
  a multiple of \<open>2 ^ (e - 52)\<close>. Results beyond the largest finite float, where CPython
  has \<open>inf\<close>, are not modelled.
\<close>

definition pow2 :: "int \<Rightarrow> real" where
  "pow2 e = (if 0 \<le> e then 2 ^ nat e else 1 / 2 ^ nat (- e))"

text \<open>
  The binary exponent of a magnitude \<open>a\<close>: the search goes up from 0 for \<open>1 \<le> a\<close>, and
  down from \<open>-1\<close> otherwise, where it stops at \<open>-1022\<close>.
\<close>

primrec exp_up :: "nat \<Rightarrow> int \<Rightarrow> real \<Rightarrow> int" where
  "exp_up 0 e a = e"
| "exp_up (Suc k) e a = (if pow2 (e + 1) \<le> a then exp_up k (e + 1) a else e)"

primrec exp_down :: "nat \<Rightarrow> int \<Rightarrow> real \<Rightarrow> int" where
  "exp_down 0 e a = e"
| "exp_down (Suc k) e a = (if a < pow2 e then exp_down k (e - 1) a else e)"

definition float_exponent :: "real \<Rightarrow> int" where
  "float_exponent x =
     (if 1 \<le> \<bar>x\<bar> then exp_up 1023 0 \<bar>x\<bar> else exp_down 1021 (- 1) \<bar>x\<bar>)"

text \<open>The distance between the floats around \<open>x\<close>.\<close>

definition float_ulp :: "real \<Rightarrow> real" where
  "float_ulp x = pow2 (float_exponent x - 52)"

definition round_half_even :: "real \<Rightarrow> int" where
  "round_half_even y =
     (let f = \<lfloor>y\<rfloor>; d = y - of_int f in
      if d < 1 / 2 then f else if d > 1 / 2 then f + 1 else if even f then f else f + 1)"

definition fl :: "real \<Rightarrow> real" where
  "fl x = (if x = 0 then 0 else of_int (round_half_even (x / float_ulp x)) * float_ulp x)"

section \<open>The environment: file system, tag reader and codecs\<close>

text \<open>
  \<open>mutagen\<close>, \<open>os.path\<close>, \<open>pygame\<close> and \<open>vlc\<close> are libraries outside the repository. What a
  call into them answers is a parameter of the model, collected in the record \<open>world\<close>:
  \<^item> \<open>path_exists\<close> is \<open>os.path.exists\<close>, \<open>normpath\<close> is \<open>os.path.normpath\<close>;
  \<^item> \<open>MutagenFile\<close> is \<open>mutagen.File\<close>: it raises, returns \<open>None\<close> or returns a tag object;
  \<^item> \<open>pygame_load_error\<close> and \<open>vlc_load_error\<close> say which exception, if any, loading and
    starting a file raises in the respective library;
  \<^item> \<open>unicode_nd\<close> is the table of the decimal digits beyond ASCII (the class \<open>\d\<close> of \<open>re\<close>).

  A tag object maps a key to the list of its values (each already converted by \<open>str\<close>);
  \<open>has_get\<close> is \<open>hasattr(audio_file, 'get')\<close> and \<open>info_length\<close> is \<open>audio_file.info.length\<close>
  when \<open>audio_file.info\<close> is present.
\<close>

record audio_file =
  tags :: "pystr \<Rightarrow> pystr list option"
  has_get :: bool
  info_length :: "real option"

record world =
  path_exists :: "pystr \<Rightarrow> bool"
  normpath :: "pystr \<Rightarrow> pystr"
  MutagenFile :: "pystr \<Rightarrow> exn + audio_file option"
  pygame_load_error :: "pystr \<Rightarrow> exn option"
  vlc_load_error :: "pystr \<Rightarrow> exn option"
  unicode_nd :: "nat \<Rightarrow> bool"

section \<open>Title lookup: \<open>get_song_info\<close>\<close>

text \<open>\<open>str(audio_file[key][0]).strip()\<close>\<close>

definition tag_text :: "audio_file \<Rightarrow> pystr \<Rightarrow> exn + pystr" where
  "tag_text af key =
     (case tags af key of
        None \<Rightarrow> Inl (KeyError key)
      | Some vs \<Rightarrow> (case py_index vs 0 of Inl e \<Rightarrow> Inl e | Inr v \<Rightarrow> Inr (py_strip v)))"

text \<open>\<open>audio_file.get(key)\<close> is truthy when the key is present with a non-empty value list.\<close>

definition tag_truthy :: "audio_file \<Rightarrow> pystr \<Rightarrow> bool" where
  "tag_truthy af key = (case tags af key of None \<Rightarrow> False | Some vs \<Rightarrow> vs \<noteq> [])"

text \<open>The chain of tag formats tried for the variable \<open>title\<close> (\<open>None\<close> when no branch sets it).\<close>

definition lookup_title :: "audio_file \<Rightarrow> exn + pystr option" where
  "lookup_title af =
     (if tags af (str ''TIT2'') \<noteq> None then map_sum id Some (tag_text af (str ''TIT2''))
      else if tags af (str ''TITLE'') \<noteq> None then map_sum id Some (tag_text af (str ''TITLE''))
      else if has_get af then
        (if tag_truthy af (str ''TITLE'') then map_sum id Some (tag_text af (str ''TITLE''))
         else if tag_truthy af (str ''TIT2'') then map_sum id Some (tag_text af (str ''TIT2''))
         else Inr None)
      else Inr None)"

text \<open>
  The \<open>try\<close> block of \<open>get_song_info\<close>: \<open>Some t\<close> when it returns the title \<open>t\<close>, \<open>None\<close> when
  it falls through to the filename, which it also does on every exception.
\<close>

definition metadata_title :: "world \<Rightarrow> pystr \<Rightarrow> pystr option" where
  "metadata_title w file_path =
     (case MutagenFile w file_path of
        Inl e \<Rightarrow> None
      | Inr None \<Rightarrow> None
      | Inr (Some af) \<Rightarrow>
          (case lookup_title af of
             Inl e \<Rightarrow> None
           | Inr None \<Rightarrow> None
           | Inr (Some title) \<Rightarrow>
               if title \<noteq> [] \<and> title \<noteq> str ''Unknown'' \<and> title \<noteq> [] then Some title else None))"

text \<open>
  \<open>os.path.basename\<close> and the root of \<open>os.path.splitext\<close>, as \<open>posixpath\<close> defines them (on
  Windows the directory part also ends at a backslash or a drive letter). \<open>rfind\<close> is
  \<open>str.rfind\<close> for one character; \<open>splitext_scan\<close> is the loop of \<open>genericpath._splitext\<close> that
  skips the leading dots of the name.
\<close>

definition rfind :: "nat \<Rightarrow> pystr \<Rightarrow> int" where
  "rfind c p =
     (if c \<in> set p then int (length p) - 1 - int (length (takeWhile (\<lambda>x. x \<noteq> c) (rev p)))
      else - 1)"

definition basename :: "pystr \<Rightarrow> pystr" where
  "basename p = drop (nat (rfind 47 p + 1)) p"

function splitext_scan :: "pystr \<Rightarrow> int \<Rightarrow> int \<Rightarrow> pystr" where
  "splitext_scan p filenameIndex dotIndex =
     (if filenameIndex < dotIndex then
        (if take 1 (drop (nat filenameIndex) p) \<noteq> [46] then take (nat dotIndex) p
         else splitext_scan p (filenameIndex + 1) dotIndex)
      else p)"
  by pat_completeness auto
termination
  by (relation "measure (\<lambda>(p, i, d). nat (d - i))") auto

definition splitext_root :: "pystr \<Rightarrow> pystr" where
  "splitext_root p =
     (let sepIndex = rfind 47 p; dotIndex = rfind 46 p in
      if dotIndex > sepIndex then splitext_scan p (sepIndex + 1) dotIndex else p)"

text \<open>
  The separators, as the source file spells them. The second and third are the five code
  points space, U+201A, U+00C4, U+00EC (respectively U+00EE), space.
\<close>

definition separators :: "pystr list" where
  "separators =
     [str '' - '', [32, 8218, 196, 236, 32], [32, 8218, 196, 238, 32], str ''-'', str ''_'']"

text \<open>
  The loop over the separators: the first separator that occurs in the name decides, and
  the last part of the split, stripped, becomes the name.
\<close>

fun strip_artist :: "pystr list \<Rightarrow> pystr \<Rightarrow> pystr" where
  "strip_artist [] song_name = song_name"
| "strip_artist (sep # seps) song_name =
     (if py_in sep song_name then
        (let parts = py_split sep song_name in
         if length parts > 1 then py_strip (last parts) else strip_artist seps song_name)
      else strip_artist seps song_name)"

text \<open>
  \<open>re.sub(r'^\d+[.\s\-_]+', '', song_name, count=1)\<close>. \<open>py_isdecimal\<close> is the class \<open>\d\<close>,
  \<open>track_sep\<close> the class \<open>[.\s\-_]\<close>. Both repetitions are greedy: the digits are matched
  as far as they go and given back one by one (\<open>track_prefix_len\<close>) until a character of the
  second class follows; the match then extends over all such characters.
\<close>

definition py_isdecimal :: "world \<Rightarrow> nat \<Rightarrow> bool" where
  "py_isdecimal w c = (if c < 128 then 48 \<le> c \<and> c \<le> 57 else unicode_nd w c)"

definition track_sep :: "nat \<Rightarrow> bool" where
  "track_sep c \<longleftrightarrow> c = 46 \<or> py_isspace c \<or> c = 45 \<or> c = 95"

fun track_prefix_len :: "pystr \<Rightarrow> nat \<Rightarrow> nat option" where
  "track_prefix_len song_name 0 = None"
| "track_prefix_len song_name (Suc k) =
     (let r = length (takeWhile track_sep (drop (Suc k) song_name)) in
      if r > 0 then Some (Suc k + r) else track_prefix_len song_name k)"

definition strip_track_number :: "world \<Rightarrow> pystr \<Rightarrow> pystr" where
  "strip_track_number w song_name =
     (case track_prefix_len song_name (length (takeWhile (py_isdecimal w) song_name)) of
        None \<Rightarrow> song_name
      | Some n \<Rightarrow> drop n song_name)"

text \<open>The fallback of \<open>get_song_info\<close> up to its last line, and the function itself.\<close>

definition filename_title :: "world \<Rightarrow> pystr \<Rightarrow> pystr" where
  "filename_title w file_path =
     (let filename = basename file_path;
          song_name = splitext_root filename;
          song_name = strip_artist separators song_name;
          song_name = strip_track_number w song_name
      in py_strip song_name)"

definition get_song_info :: "world \<Rightarrow> pystr \<Rightarrow> pystr" where
  "get_song_info w file_path =
     (case metadata_title w file_path of
        Some title \<Rightarrow> title
      | None \<Rightarrow>
          (let song_name = filename_title w file_path in
           if song_name \<noteq> [] then song_name else str ''Unknown Song''))"

section \<open>The audio backends\<close>

text \<open>
  The record \<open>backend\<close> holds the three attributes of the player that select the backend
  (\<open>_use_vlc\<close>, and whether \<open>_vlc_instance\<close> and \<open>_vlc_player\<close> are set) together with what
  the two libraries answer when the source calls them:
  \<^item> \<open>vlc_is_playing\<close>, \<open>vlc_time\<close>, \<open>vlc_length\<close> are the answers of \<open>is_playing()\<close>,
    \<open>get_time()\<close> and \<open>get_length()\<close> of the VLC player, \<open>mixer_busy\<close> and \<open>mixer_pos\<close> those of
    \<open>pygame.mixer.music.get_busy()\<close> and \<open>get_pos()\<close>; each is a value or the exception raised;
  \<^item> \<open>vlc_fault\<close> and \<open>mixer_fault\<close>, when set, are the exception that the commands of the
    library (stop, load and play, set the volume) raise, for instance because the mixer was
    never initialised;
  \<^item> \<open>vlc_media\<close>, \<open>vlc_volume\<close>, \<open>mixer_music\<close>, \<open>mixer_volume\<close> are what was last loaded and
    set.
  Starting a file makes its library answer that it plays, stopping makes it answer that it
  does not. Nothing else changes these answers inside one operation of the player.
\<close>

record backend =
  use_vlc :: bool
  vlc_instance :: bool
  vlc_player :: bool
  vlc_fault :: "exn option"
  vlc_is_playing :: "exn + int"
  vlc_time :: "exn + int"
  vlc_length :: "exn + int"
  vlc_media :: "pystr option"
  vlc_volume :: int
  mixer_fault :: "exn option"
  mixer_busy :: "exn + bool"
  mixer_pos :: "exn + int"
  mixer_music :: "pystr option"
  mixer_volume :: real

subsection \<open>The commands of the libraries\<close>

definition vlc_stop :: "backend \<Rightarrow> exn + backend" where
  "vlc_stop b =
     (case vlc_fault b of Some e \<Rightarrow> Inl e | None \<Rightarrow> Inr (b\<lparr>vlc_is_playing := Inr 0\<rparr>))"

text \<open>\<open>media_new\<close>, \<open>set_media\<close> and \<open>play\<close> of the VLC player, in this order.\<close>

definition vlc_play :: "world \<Rightarrow> pystr \<Rightarrow> backend \<Rightarrow> exn + backend" where
  "vlc_play w file_path b =
     (case vlc_fault b of
        Some e \<Rightarrow> Inl e
      | None \<Rightarrow>
          (case vlc_load_error w file_path of
             Some e \<Rightarrow> Inl e
           | None \<Rightarrow> Inr (b\<lparr>vlc_media := Some file_path, vlc_is_playing := Inr 1\<rparr>)))"

definition vlc_audio_set_volume :: "int \<Rightarrow> backend \<Rightarrow> exn + backend" where
  "vlc_audio_set_volume v b =
     (case vlc_fault b of Some e \<Rightarrow> Inl e | None \<Rightarrow> Inr (b\<lparr>vlc_volume := v\<rparr>))"

definition mixer_stop :: "backend \<Rightarrow> exn + backend" where
  "mixer_stop b =
     (case mixer_fault b of Some e \<Rightarrow> Inl e | None \<Rightarrow> Inr (b\<lparr>mixer_busy := Inr False\<rparr>))"

text \<open>\<open>pygame.mixer.music.load\<close> followed by \<open>pygame.mixer.music.play\<close>.\<close>

definition mixer_load_play :: "world \<Rightarrow> pystr \<Rightarrow> backend \<Rightarrow> exn + backend" where
  "mixer_load_play w file_path b =
     (case mixer_fault b of
        Some e \<Rightarrow> Inl e
      | None \<Rightarrow>
          (case pygame_load_error w file_path of
             Some e \<Rightarrow> Inl e
           | None \<Rightarrow>
               Inr (b\<lparr>mixer_music := Some file_path, mixer_busy := Inr True, mixer_pos := Inr 0\<rparr>)))"

definition mixer_set_volume :: "real \<Rightarrow> backend \<Rightarrow> exn + backend" where
  "mixer_set_volume v b =
     (case mixer_fault b of Some e \<Rightarrow> Inl e | None \<Rightarrow> Inr (b\<lparr>mixer_volume := v\<rparr>))"

subsection \<open>The backend methods of the player\<close>

text \<open>
  The message of the exception that \<open>_backend_play\<close> raises for the codec failure of pygame;
  \<open>remediation_hint\<close> is its part that tells the user what to install.
\<close>

definition remediation_hint :: pystr where
  "remediation_hint =
     str ''Fix: install VLC backend:'' @ [10] @ str ''  pip install python-vlc'' @ [10] @
     str ''and install VLC player on Windows.''"

definition modplug_message :: "pystr \<Rightarrow> pystr" where
  "modplug_message msg =
     str ''Pygame couldn'' @ [39] @ str ''t decode this file (ModPlug_load failed).'' @ [10, 10] @
     remediation_hint @ [10, 10] @ str ''Original error: '' @ msg"

definition backend_play :: "world \<Rightarrow> pystr \<Rightarrow> backend \<Rightarrow> exn + backend" where
  "backend_play w file_path b =
     (let file_path = normpath w file_path in
      if use_vlc b \<and> vlc_instance b \<and> vlc_player b then vlc_play w file_path b
      else
        (case mixer_load_play w file_path b of
           Inl (PygameError msg) \<Rightarrow>
             if py_in (str ''ModPlug_load failed'') msg then Inl (PyException (modplug_message msg))
             else Inl (PygameError msg)
         | Inl (PyException msg) \<Rightarrow> Inl (PyException msg)
         | Inr b' \<Rightarrow> Inr b'))"

definition backend_stop :: "backend \<Rightarrow> exn + backend" where
  "backend_stop b = (if use_vlc b \<and> vlc_player b then vlc_stop b else mixer_stop b)"

definition backend_is_busy :: "backend \<Rightarrow> bool" where
  "backend_is_busy b =
     (if use_vlc b \<and> vlc_player b then
        (case vlc_is_playing b of Inl e \<Rightarrow> False | Inr v \<Rightarrow> v = 1)
      else
        (case mixer_busy b of Inl e \<Rightarrow> False | Inr busy \<Rightarrow> busy))"

text \<open>\<open>int(x)\<close> on a float truncates towards zero.\<close>

definition py_int :: "real \<Rightarrow> int" where
  "py_int x = (if 0 \<le> x then \<lfloor>x\<rfloor> else \<lceil>x\<rceil>)"

text \<open>
  \<open>max(0.0, min(1.0, float(volume_0_to_1)))\<close>, the value both branches of
  \<open>_backend_set_volume\<close> work with. The argument is a float already (the only caller
  passes \<open>self.volume\<close>), which \<open>float\<close> returns as it is.
\<close>

definition clamp_volume :: "real \<Rightarrow> real" where
  "clamp_volume v = max 0 (min 1 v)"

text \<open>VLC is given \<open>int(volume_0_to_1 * 100)\<close>: the product is a float, hence rounded.\<close>

definition backend_set_volume :: "real \<Rightarrow> backend \<Rightarrow> exn + backend" where
  "backend_set_volume volume_0_to_1 b =
     (let volume_0_to_1 = clamp_volume volume_0_to_1 in
      if use_vlc b \<and> vlc_player b then
        vlc_audio_set_volume (py_int (fl (volume_0_to_1 * 100))) b
      else
        (case mixer_set_volume volume_0_to_1 b of Inl e \<Rightarrow> Inr b | Inr b' \<Rightarrow> Inr b'))"

text \<open>\<open>max(0.0, ms / 1000.0) if ms and ms > 0 else 0.0\<close>\<close>

definition ms_to_seconds :: "int \<Rightarrow> real" where
  "ms_to_seconds ms = (if ms \<noteq> 0 \<and> ms > 0 then max 0 (real_of_int ms / 1000) else 0)"

definition backend_get_pos_seconds :: "backend \<Rightarrow> exn + real" where
  "backend_get_pos_seconds b =
     (if use_vlc b \<and> vlc_player b then
        (case vlc_time b of Inl e \<Rightarrow> Inl e | Inr ms \<Rightarrow> Inr (ms_to_seconds ms))
      else
        (case mixer_pos b of Inl e \<Rightarrow> Inl e | Inr ms \<Rightarrow> Inr (ms_to_seconds ms)))"

section \<open>The player\<close>

text \<open>
  The attributes of \<open>MusicPlayer\<close> that the playback logic reads or writes, and of the
  widgets those whose content depends on it: the list box of titles, the label of the
  current song, the progress variable, the dialogs shown through \<open>messagebox\<close> (in the order
  shown) and the callbacks registered with \<open>root.after\<close> (delay in milliseconds). Colours,
  button glyphs, the time label and the selection highlight are left out: no code reads them.
\<close>

datatype dialog_kind = ShowWarning | ShowError | ShowInfo

datatype dialog = Dialog dialog_kind pystr pystr

datatype callback = CheckSongEnd | UpdateProgress

record player =
  backend :: backend
  all_songs :: "pystr list"
  favourites :: "pystr list"
  playlists :: "pystr \<Rightarrow> pystr list option"
  current_playlist_name :: pystr
  current_playlist :: "pystr list"
  current_index :: int
  is_playing :: bool
  is_paused :: bool
  volume :: real
  song_listbox :: "pystr list"
  current_song_label :: pystr
  progress_var :: real
  messagebox :: "dialog list"
  after_calls :: "(nat \<times> callback) list"

definition showwarning :: "pystr \<Rightarrow> pystr \<Rightarrow> player \<Rightarrow> player" where
  "showwarning title message s = s\<lparr>messagebox := messagebox s @ [Dialog ShowWarning title message]\<rparr>"

definition showerror :: "pystr \<Rightarrow> pystr \<Rightarrow> player \<Rightarrow> player" where
  "showerror title message s = s\<lparr>messagebox := messagebox s @ [Dialog ShowError title message]\<rparr>"

definition showinfo :: "pystr \<Rightarrow> pystr \<Rightarrow> player \<Rightarrow> player" where
  "showinfo title message s = s\<lparr>messagebox := messagebox s @ [Dialog ShowInfo title message]\<rparr>"

definition root_after :: "nat \<Rightarrow> callback \<Rightarrow> player \<Rightarrow> player" where
  "root_after ms cb s = s\<lparr>after_calls := after_calls s @ [(ms, cb)]\<rparr>"

subsection \<open>Selecting a playlist\<close>

definition update_song_list_display :: "world \<Rightarrow> player \<Rightarrow> player" where
  "update_song_list_display w s = s\<lparr>song_listbox := map (get_song_info w) (current_playlist s)\<rparr>"

definition select_playlist :: "world \<Rightarrow> pystr \<Rightarrow> player \<Rightarrow> player" where
  "select_playlist w playlist_name s =
     update_song_list_display w
       (s\<lparr>current_playlist_name := playlist_name,
          current_playlist :=
            (if playlist_name = str ''All'' then all_songs s
             else if playlist_name = str ''Favourite'' then favourites s
             else (case playlists s playlist_name of None \<Rightarrow> [] | Some songs \<Rightarrow> songs))\<rparr>)"

subsection \<open>Playing, the end-of-song check and stepping through the playlist\<close>

text \<open>The text that \<open>play_song\<close> puts on the label of the current song.\<close>

definition song_label_text :: "world \<Rightarrow> pystr \<Rightarrow> pystr" where
  "song_label_text w file_path =
     (let song_info = get_song_info w file_path;
          song_info = (if song_info = [] \<or> py_strip song_info = [] then basename file_path
                       else song_info)
      in if song_info = [] then str ''Unknown Song'' else song_info)"

text \<open>The outer \<open>except Exception\<close> handler of \<open>play_song\<close>.\<close>

definition play_song_except :: "exn \<Rightarrow> player \<Rightarrow> player" where
  "play_song_except e s =
     (showerror (str ''Error'') (str ''Could not play song: '' @ exn_str e) s)\<lparr>is_playing := False\<rparr>"

text \<open>
  \<open>play_song\<close> ends by calling \<open>check_song_end\<close>, which calls \<open>next_song\<close> when the player is
  playing and the pygame mixer is not busy, and \<open>next_song\<close> calls \<open>play_song\<close> again. The
  recursion need not end, so the three functions take the number of nested activations of
  \<open>play_song\<close> that may still be opened; \<open>None\<close> says that this number did not suffice.
  \<open>play_song\<close> and \<open>next_song\<close> raise nothing (every exception inside \<open>play_song\<close> is handled
  there); \<open>check_song_end\<close> raises what \<open>pygame.mixer.music.get_busy()\<close> raises.
\<close>

fun play_song :: "nat \<Rightarrow> world \<Rightarrow> player \<Rightarrow> player option"
  and check_song_end :: "nat \<Rightarrow> world \<Rightarrow> player \<Rightarrow> (exn + player) option"
  and next_song :: "nat \<Rightarrow> world \<Rightarrow> player \<Rightarrow> player option"
where
  "play_song 0 w s = None"
| "play_song (Suc n) w s =
     (if current_playlist s = [] then
        Some (showwarning (str ''Warning'') (str ''Playlist is empty!'') s)
      else
        (let s = (if current_index s \<ge> int (length (current_playlist s))
                  then s\<lparr>current_index := 0\<rparr> else s)
         in
           (case py_index (current_playlist s) (current_index s) of
              Inl e \<Rightarrow> Some (play_song_except e s)
            | Inr file_path \<Rightarrow>
                (if \<not> path_exists w file_path then
                   Some (showerror (str ''Error'') (str ''File not found:'' @ [10] @ file_path) s)
                 else
                   (case backend_stop (backend s) of
                      Inl e \<Rightarrow>
                        Some (showerror (str ''Error'')
                                (str ''Could not play song:'' @ [10] @ exn_str e) s)
                    | Inr b1 \<Rightarrow>
                        (case backend_play w file_path b1 of
                           Inl e \<Rightarrow>
                             Some (showerror (str ''Error'')
                                     (str ''Could not play song:'' @ [10] @ exn_str e)
                                     (s\<lparr>backend := b1\<rparr>))
                         | Inr b2 \<Rightarrow>
                             (let s = s\<lparr>backend := b2, is_playing := True, is_paused := False,
                                        current_song_label := song_label_text w file_path\<rparr>
                              in
                                (case check_song_end n w s of
                                   None \<Rightarrow> None
                                 | Some (Inl e) \<Rightarrow> Some (play_song_except e s)
                                 | Some (Inr s') \<Rightarrow> Some s'))))))))"
| "check_song_end n w s =
     (if is_playing s then
        (case mixer_busy (backend s) of
           Inl e \<Rightarrow> Some (Inl e)
         | Inr busy \<Rightarrow>
             if \<not> busy then map_option Inr (next_song n w s)
             else Some (Inr (root_after 1000 CheckSongEnd s)))
      else Some (Inr (root_after 1000 CheckSongEnd s)))"
| "next_song n w s =
     (if current_playlist s = [] then Some s
      else
        play_song n w
          (s\<lparr>current_index := (current_index s + 1) mod int (length (current_playlist s))\<rparr>))"

definition previous_song :: "nat \<Rightarrow> world \<Rightarrow> player \<Rightarrow> player option" where
  "previous_song n w s =
     (if current_playlist s = [] then Some s
      else
        play_song n w
          (s\<lparr>current_index := (current_index s - 1) mod int (length (current_playlist s))\<rparr>))"

text \<open>\<open>stop_song\<close>; the call into the backend is not guarded, so its exception leaves the method.\<close>

definition stop_song :: "player \<Rightarrow> exn + player" where
  "stop_song s =
     (case backend_stop (backend s) of
        Inl e \<Rightarrow> Inl e
      | Inr b \<Rightarrow> Inr (s\<lparr>backend := b, is_playing := False, is_paused := False, progress_var := 0\<rparr>))"

subsection \<open>Volume\<close>

text \<open>
  \<open>self.volume = float(value) / 100.0\<close>, where \<open>v\<close> is the number that the argument \<open>value\<close>
  (the text of the slider position) denotes: the conversion rounds it to a float, and the division
  rounds the quotient. \<open>set_volume\<close> assigns \<open>self.volume\<close> before it calls the backend, so
  the new state is returned also when the backend raises (second component).
\<close>

definition set_volume :: "real \<Rightarrow> player \<Rightarrow> player \<times> exn option" where
  "set_volume v s =
     (let s = s\<lparr>volume := fl (fl v / 100)\<rparr> in
      case backend_set_volume (volume s) (backend s) of
        Inl e \<Rightarrow> (s, Some e)
      | Inr b \<Rightarrow> (s\<lparr>backend := b\<rparr>, None))"

subsection \<open>The progress tick\<close>

definition backend_get_duration_seconds :: "world \<Rightarrow> player \<Rightarrow> exn + real" where
  "backend_get_duration_seconds w s =
     (if use_vlc (backend s) \<and> vlc_player (backend s) then
        (case vlc_length (backend s) of Inl e \<Rightarrow> Inl e | Inr ms \<Rightarrow> Inr (ms_to_seconds ms))
      else
        Inr (if current_index s < int (length (current_playlist s)) then
               (case py_index (current_playlist s) (current_index s) of
                  Inl e \<Rightarrow> 0
                | Inr file_path \<Rightarrow>
                    (case MutagenFile w file_path of
                       Inl e \<Rightarrow> 0
                     | Inr None \<Rightarrow> 0
                     | Inr (Some af) \<Rightarrow> (case info_length af of None \<Rightarrow> 0 | Some l \<Rightarrow> l)))
             else 0))"

text \<open>The body of the \<open>try\<close> block of \<open>update_progress\<close>.\<close>

definition progress_body :: "world \<Rightarrow> player \<Rightarrow> exn + player" where
  "progress_body w s =
     (case backend_get_pos_seconds (backend s) of
        Inl e \<Rightarrow> Inl e
      | Inr current_pos \<Rightarrow>
          (case backend_get_duration_seconds w s of
             Inl e \<Rightarrow> Inl e
           | Inr duration \<Rightarrow>
               if duration \<noteq> 0 \<and> duration > 0
               then Inr (s\<lparr>progress_var := min ((current_pos / duration) * 100) 100\<rparr>)
               else Inr s))"

definition update_progress :: "world \<Rightarrow> player \<Rightarrow> player" where
  "update_progress w s =
     (let s = (if is_playing s \<and> backend_is_busy (backend s) then
                 (case progress_body w s of Inl e \<Rightarrow> s | Inr s' \<Rightarrow> s')
               else s)
      in root_after 100 UpdateProgress s)"

subsection \<open>Removing a song from the current playlist\<close>

definition remove_song_from_current_playlist :: "world \<Rightarrow> int \<Rightarrow> player \<Rightarrow> exn + player" where
  "remove_song_from_current_playlist w index s =
     (if index < int (length (current_playlist s)) then
        (case py_index (current_playlist s) index of
           Inl e \<Rightarrow> Inl e
         | Inr file_path \<Rightarrow>
             let playlist_name = current_playlist_name s in
             (case playlists s playlist_name of
                None \<Rightarrow> Inr s
              | Some songs \<Rightarrow>
                  if file_path \<in> set songs then
                    let s = s\<lparr>playlists := (playlists s)(playlist_name \<mapsto> remove1 file_path songs),
                               current_playlist := remove1 file_path (current_playlist s)\<rparr>;
                        s = update_song_list_display w s;
                        s = (if index \<le> current_index s \<and> current_index s > 0
                             then s\<lparr>current_index := current_index s - 1\<rparr> else s)
                    in Inr (showinfo (str ''Success'') (str ''Removed from playlist!'') s)
                  else Inr s))
      else Inr s)"

section \<open>Notions of the specification\<close>

text \<open>
  The transport state is read off the two flags: \<open>__init__\<close> and \<open>stop_song\<close> clear both,
  \<open>play_song\<close> sets \<open>is_playing\<close> only, pausing sets \<open>is_paused\<close> only.
\<close>

datatype transport = Stopped | Playing | Paused

definition transport_state :: "player \<Rightarrow> transport" where
  "transport_state s = (if is_playing s then Playing else if is_paused s then Paused else Stopped)"

text \<open>The invariant of the cursor: inside the view whenever the view is not empty.\<close>

definition cursor_in_range :: "player \<Rightarrow> bool" where
  "cursor_in_range s \<longleftrightarrow>
     (current_playlist s \<noteq> [] \<longrightarrow>
        0 \<le> current_index s \<and> current_index s < int (length (current_playlist s)))"

text \<open>
  The player after the second statement of \<open>play_song\<close>, which resets a cursor at or beyond
  the end of the view to 0, and the track that \<open>play_song\<close> then resolves the cursor to.
\<close>

definition reset_stale_cursor :: "player \<Rightarrow> player" where
  "reset_stale_cursor s =
     (if current_index s \<ge> int (length (current_playlist s)) then s\<lparr>current_index := 0\<rparr> else s)"

definition current_track :: "player \<Rightarrow> exn + pystr" where
  "current_track s =
     py_index (current_playlist (reset_stale_cursor s)) (current_index (reset_stale_cursor s))"

fun dialog_kind_of :: "dialog \<Rightarrow> dialog_kind" where
  "dialog_kind_of (Dialog k title message) = k"

fun dialog_message :: "dialog \<Rightarrow> pystr" where
  "dialog_message (Dialog k title message) = message"

text \<open>\<open>next_song\<close> called \<open>k\<close> times in a row, each call with \<open>n\<close> nested activations allowed.\<close>

fun next_song_times :: "nat \<Rightarrow> nat \<Rightarrow> world \<Rightarrow> player \<Rightarrow> player option" where
  "next_song_times 0 n w s = Some s"
| "next_song_times (Suc k) n w s =
     (case next_song n w s of None \<Rightarrow> None | Some s' \<Rightarrow> next_song_times k n w s')"

section \<open>Example environments and player states\<close>

definition song_a :: pystr where "song_a = str ''/music/01 - Artist - My Song.mp3''"
definition song_b :: pystr where "song_b = str ''/music/b.ogg''"
definition song_c :: pystr where "song_c = str ''/music/c.xm''"

text \<open>Every file exists, none has tags, every file loads.\<close>

definition quiet_world :: world where
  "quiet_world =
     \<lparr>path_exists = (\<lambda>p. True), normpath = (\<lambda>p. p), MutagenFile = (\<lambda>p. Inr None),
      pygame_load_error = (\<lambda>p. None), vlc_load_error = (\<lambda>p. None), unicode_nd = (\<lambda>c. False)\<rparr>"

text \<open>The file \<open>song_c\<close> is missing.\<close>

definition missing_world :: world where
  "missing_world = quiet_world\<lparr>path_exists := (\<lambda>p. p \<noteq> song_c)\<rparr>"

text \<open>pygame cannot decode \<open>song_c\<close>.\<close>

definition modplug_world :: world where
  "modplug_world =
     quiet_world\<lparr>pygame_load_error :=
       (\<lambda>p. if p = song_c then Some (PygameError (str ''ModPlug_load failed.'')) else None)\<rparr>"

text \<open>The player without VLC, idle; and with VLC, the pygame mixer initialised but never used.\<close>

definition pygame_backend :: backend where
  "pygame_backend =
     \<lparr>use_vlc = False, vlc_instance = False, vlc_player = False, vlc_fault = None,
      vlc_is_playing = Inr 0, vlc_time = Inr 0, vlc_length = Inr 0, vlc_media = None,
      vlc_volume = 0, mixer_fault = None, mixer_busy = Inr False, mixer_pos = Inr 0,
      mixer_music = None, mixer_volume = fl (7 / 10)\<rparr>"

definition vlc_backend :: backend where
  "vlc_backend =
     pygame_backend\<lparr>use_vlc := True, vlc_instance := True, vlc_player := True, vlc_volume := 70\<rparr>"

text \<open>
  A library of three songs shown as playlist \<open>All\<close>, the cursor on the last one, and a
  custom playlist \<open>Rock\<close> with one song.
\<close>

definition demo_player :: "backend \<Rightarrow> player" where
  "demo_player b =
     \<lparr>backend = b,
      all_songs = [song_a, song_b, song_c],
      favourites = [],
      playlists = [str ''All'' \<mapsto> [song_a, song_b, song_c], str ''Favourite'' \<mapsto> [],
                   str ''Rock'' \<mapsto> [song_a]],
      current_playlist_name = str ''All'',
      current_playlist = [song_a, song_b, song_c],
      current_index = 2,
      is_playing = False,
      is_paused = False,
      volume = fl (7 / 10),
      song_listbox = [str ''My Song'', str ''b'', str ''c''],
      current_song_label = str ''No song selected'',
      progress_var = 0,
      messagebox = [],
      after_calls = [(100, UpdateProgress)]\<rparr>"

text \<open>The demo player after the (empty) playlist of favourites has been selected.\<close>

definition empty_player :: player where
  "empty_player = select_playlist quiet_world (str ''Favourite'') (demo_player pygame_backend)"

text \<open>Every file has a tag object without a title and with a length of 200 seconds.\<close>

definition tagged_world :: world where
  "tagged_world =
     quiet_world\<lparr>MutagenFile :=
       (\<lambda>p. Inr (Some \<lparr>tags = (\<lambda>k. None), has_get = True, info_length = Some 200\<rparr>))\<rparr>"

text \<open>The same, except that the tag reader finds nothing in \<open>song_c\<close>.\<close>

definition untagged_world :: world where
  "untagged_world =
     tagged_world\<lparr>MutagenFile :=
       (\<lambda>p. if p = song_c then Inr None else MutagenFile tagged_world p)\<rparr>"

text \<open>
  pygame plays \<open>song_c\<close> and is 50 seconds into it, while the progress variable still shows
  the 50 per cent of an earlier track.
\<close>

definition progress_player :: player where
  "progress_player =
     (demo_player
        (pygame_backend\<lparr>mixer_busy := Inr True, mixer_pos := Inr 50000,
                         mixer_music := Some song_c\<rparr>))
       \<lparr>is_playing := True, progress_var := 50\<rparr>"

text \<open>VLC plays \<open>song_c\<close>; the pygame mixer is initialised and has never played anything.\<close>

definition vlc_playing_player :: player where
  "vlc_playing_player =
     (demo_player (vlc_backend\<lparr>vlc_is_playing := Inr 1, vlc_media := Some song_c\<rparr>))
       \<lparr>is_playing := True\<rparr>"

section \<open>The title lookup\<close>

lemma metadata_title_nonempty: "metadata_title w p = Some t \<Longrightarrow> t \<noteq> []"
  by (auto simp: metadata_title_def split: sum.splits option.splits if_splits)

lemma get_song_info_nonempty: "get_song_info w p \<noteq> []"
  by (auto simp: get_song_info_def Let_def str_def dest: metadata_title_nonempty
      split: option.splits)

lemma metadata_title_raises: "MutagenFile w p = Inl e \<Longrightarrow> metadata_title w p = None"
  by (simp add: metadata_title_def)

lemma rfind_last_sep:
  assumes "c \<notin> set n"
  shows "rfind c (d @ c # n) = int (length d)"
proof -
  have "takeWhile (\<lambda>x. x \<noteq> c) (rev n @ c # rev d) = rev n"
    using assms by (auto simp: takeWhile_tail)
  then show ?thesis by (simp add: rfind_def)
qed

lemma basename_dir: "47 \<notin> set n \<Longrightarrow> basename (d @ 47 # n) = n"
proof -
  assume a: "47 \<notin> set n"
  have "nat (int (length d) + 1) = Suc (length d)" by simp
  with a show ?thesis by (simp add: basename_def rfind_last_sep)
qed

lemma basename_plain: "47 \<notin> set n \<Longrightarrow> basename n = n"
  by (simp add: basename_def rfind_def)

lemma filename_title_basename:
  "basename p = basename q \<Longrightarrow> filename_title w p = filename_title w q"
  by (simp add: filename_title_def)

lemma my_song_plain: "filename_title w (str ''01 - Artist - My Song.mp3'') = str ''My Song''"
  by (simp add: filename_title_def str_def basename_def rfind_def splitext_root_def
      separators_def py_split_def py_strip_def py_isspace_def strip_track_number_def
      py_isdecimal_def track_sep_def)

lemma song_name_numbered:
  "filename_title w (str ''01. Song Name.mp3'') = str ''Song Name''"
  by (simp add: filename_title_def str_def basename_def rfind_def splitext_root_def
      separators_def py_split_def py_strip_def py_isspace_def strip_track_number_def
      py_isdecimal_def track_sep_def)

lemma my_song_dir:
  "filename_title w (d @ 47 # str ''01 - Artist - My Song.mp3'') = str ''My Song''"
proof -
  let ?f = "str ''01 - Artist - My Song.mp3''"
  have "basename (d @ 47 # ?f) = ?f"
    by (rule basename_dir) (simp add: str_def)
  moreover have "basename ?f = ?f"
    by (rule basename_plain) (simp add: str_def)
  ultimately have "filename_title w (d @ 47 # ?f) = filename_title w ?f"
    by (intro filename_title_basename) simp
  then show ?thesis by (simp add: my_song_plain)
qed

lemma filename_title_dir:
  assumes "47 \<notin> set n"
  shows "filename_title w (d @ 47 # n) = filename_title w n"
proof -
  from assms have "basename (d @ 47 # n) = basename n"
    by (simp add: basename_dir basename_plain)
  then show ?thesis by (rule filename_title_basename)
qed

lemma b_plain: "filename_title w (str ''b.ogg'') = str ''b''"
  by (simp add: filename_title_def str_def basename_def rfind_def splitext_root_def
      separators_def py_split_def py_strip_def py_isspace_def strip_track_number_def
      py_isdecimal_def track_sep_def)

lemma b_dir: "filename_title w (str ''/music/b.ogg'') = str ''b''"
proof -
  have e: "str ''/music/b.ogg'' = str ''/music'' @ 47 # str ''b.ogg''" by (simp add: str_def)
  have "filename_title w (str ''/music'' @ 47 # str ''b.ogg'') = filename_title w (str ''b.ogg'')"
    by (rule filename_title_dir) (simp add: str_def)
  then show ?thesis by (simp only: e b_plain)
qed

lemma my_song_spaced: "filename_title w (str ''Artist -  My Song .mp3'') = str ''My Song''"
  by (simp add: filename_title_def str_def basename_def rfind_def splitext_root_def
      separators_def py_split_def py_strip_def py_isspace_def strip_track_number_def
      py_isdecimal_def track_sep_def)

lemma no_title: "filename_title w (str ''/music/ - .mp3'') = []"
  by (simp add: filename_title_def str_def basename_def rfind_def splitext_root_def
      separators_def py_split_def py_strip_def py_isspace_def strip_track_number_def
      py_isdecimal_def track_sep_def)

text \<open>
  Claim C10. \<open>get_song_info\<close> is a total function of the path and of whatever the tag reader
  does: when the reader raises, the title comes from the filename. The title is never empty.
  Without a usable title tag the title is the one derived from the filename (path and
  extension stripped, last part after the first separator that occurs, leading track number
  stripped, white space around it stripped), or \<open>Unknown Song\<close> when that is empty. The
  directory of the path has no part in the derived title: a name \<open>n\<close> without a slash gets
  the same title under any directory \<open>d\<close>. The file \<open>01 - Artist - My Song.mp3\<close>, alone or
  under any directory, gets the title \<open>My Song\<close>, \<open>01. Song Name.mp3\<close> the title
  \<open>Song Name\<close>, \<open>/music/b.ogg\<close> the title \<open>b\<close>, \<open>Artist -  My Song .mp3\<close> the title
  \<open>My Song\<close>, and \<open>/music/ - .mp3\<close>, of which nothing is left, the title \<open>Unknown Song\<close>.
\<close>

theorem get_song_info_title:
  "get_song_info w p \<noteq> [] \<and>
   (\<forall>e. MutagenFile w p = Inl e \<longrightarrow> metadata_title w p = None) \<and>
   (metadata_title w p = None \<longrightarrow>
      get_song_info w p =
        (if filename_title w p = [] then str ''Unknown Song'' else filename_title w p)) \<and>
   (metadata_title w (str ''01 - Artist - My Song.mp3'') = None \<longrightarrow>
      get_song_info w (str ''01 - Artist - My Song.mp3'') = str ''My Song'') \<and>
   (metadata_title w (d @ 47 # str ''01 - Artist - My Song.mp3'') = None \<longrightarrow>
      get_song_info w (d @ 47 # str ''01 - Artist - My Song.mp3'') = str ''My Song'') \<and>
   (metadata_title w (str ''01. Song Name.mp3'') = None \<longrightarrow>
      get_song_info w (str ''01. Song Name.mp3'') = str ''Song Name'') \<and>
   (47 \<notin> set n \<longrightarrow> filename_title w (d @ 47 # n) = filename_title w n) \<and>
   (47 \<notin> set n \<and> metadata_title w (d @ 47 # n) = None \<and> metadata_title w n = None \<longrightarrow>
      get_song_info w (d @ 47 # n) = get_song_info w n) \<and>
   (metadata_title w (str ''/music/b.ogg'') = None \<longrightarrow>
      get_song_info w (str ''/music/b.ogg'') = str ''b'') \<and>
   (metadata_title w (str ''Artist -  My Song .mp3'') = None \<longrightarrow>
      get_song_info w (str ''Artist -  My Song .mp3'') = str ''My Song'') \<and>
   (metadata_title w (str ''/music/ - .mp3'') = None \<longrightarrow>
      get_song_info w (str ''/music/ - .mp3'') = str ''Unknown Song'')"
proof (intro conjI)
  show "get_song_info w p \<noteq> []" by (rule get_song_info_nonempty)
  show "\<forall>e. MutagenFile w p = Inl e \<longrightarrow> metadata_title w p = None"
    by (simp add: metadata_title_raises)
  show "metadata_title w p = None \<longrightarrow>
      get_song_info w p =
        (if filename_title w p = [] then str ''Unknown Song'' else filename_title w p)"
    by (simp add: get_song_info_def Let_def)
  have ms: "str ''My Song'' \<noteq> []" by (simp add: str_def)
  show "metadata_title w (str ''01 - Artist - My Song.mp3'') = None \<longrightarrow>
      get_song_info w (str ''01 - Artist - My Song.mp3'') = str ''My Song''"
    using ms by (simp add: get_song_info_def Let_def my_song_plain)
  show "metadata_title w (d @ 47 # str ''01 - Artist - My Song.mp3'') = None \<longrightarrow>
      get_song_info w (d @ 47 # str ''01 - Artist - My Song.mp3'') = str ''My Song''"
    using ms by (simp add: get_song_info_def Let_def my_song_dir)
  have sn: "str ''Song Name'' \<noteq> []" by (simp add: str_def)
  show "metadata_title w (str ''01. Song Name.mp3'') = None \<longrightarrow>
      get_song_info w (str ''01. Song Name.mp3'') = str ''Song Name''"
    using sn by (simp add: get_song_info_def Let_def song_name_numbered)
  show "47 \<notin> set n \<longrightarrow> filename_title w (d @ 47 # n) = filename_title w n"
    by (simp add: filename_title_dir)
  show "47 \<notin> set n \<and> metadata_title w (d @ 47 # n) = None \<and> metadata_title w n = None \<longrightarrow>
      get_song_info w (d @ 47 # n) = get_song_info w n"
    by (simp add: get_song_info_def Let_def filename_title_dir)
  have b: "str ''b'' \<noteq> []" by (simp add: str_def)
  show "metadata_title w (str ''/music/b.ogg'') = None \<longrightarrow>
      get_song_info w (str ''/music/b.ogg'') = str ''b''"
    using b by (simp add: get_song_info_def Let_def b_dir)
  show "metadata_title w (str ''Artist -  My Song .mp3'') = None \<longrightarrow>
      get_song_info w (str ''Artist -  My Song .mp3'') = str ''My Song''"
    using ms by (simp add: get_song_info_def Let_def my_song_spaced)
  show "metadata_title w (str ''/music/ - .mp3'') = None \<longrightarrow>
      get_song_info w (str ''/music/ - .mp3'') = str ''Unknown Song''"
    by (simp add: get_song_info_def Let_def no_title)
qed

theorem get_song_info_title_witness:
  "metadata_title quiet_world (str ''01 - Artist - My Song.mp3'') = None \<and>
   metadata_title quiet_world song_a = None \<and>
   metadata_title quiet_world song_b = None \<and>
   get_song_info quiet_world (str ''01 - Artist - My Song.mp3'') = str ''My Song'' \<and>
   get_song_info quiet_world song_a = str ''My Song'' \<and>
   get_song_info quiet_world (str ''01. Song Name.mp3'') = str ''Song Name'' \<and>
   get_song_info quiet_world song_b = str ''b'' \<and>
   get_song_info quiet_world (str ''b.ogg'') = str ''b'' \<and>
   get_song_info quiet_world (str ''Artist -  My Song .mp3'') = str ''My Song'' \<and>
   get_song_info quiet_world (str ''/music/ - .mp3'') = str ''Unknown Song''"
proof -
  have a: "song_a = str ''/music'' @ 47 # str ''01 - Artist - My Song.mp3''"
    by (simp add: song_a_def str_def)
  have b: "song_b = str ''/music/b.ogg''"
    by (simp add: song_b_def)
  have c: "str ''/music'' @ 47 # str ''b.ogg'' = str ''/music/b.ogg''"
    "47 \<notin> set (str ''b.ogg'')"
    by (simp_all add: str_def)
  have m: "metadata_title quiet_world q = None" for q
    by (simp add: metadata_title_def quiet_world_def)
  show ?thesis
    using get_song_info_title [of quiet_world "str ''c.xm''" "str ''/music''" "str ''b.ogg''"]
      m c(2)
    by (auto simp: a b c(1))
qed

section \<open>Failing invocations of \<open>play_song\<close>\<close>

declare play_song.simps [simp del] check_song_end.simps [simp del] next_song.simps [simp del]

lemma reset_stale_cursor_frame [simp]:
  "backend (reset_stale_cursor s) = backend s"
  "current_playlist (reset_stale_cursor s) = current_playlist s"
  "is_playing (reset_stale_cursor s) = is_playing s"
  "is_paused (reset_stale_cursor s) = is_paused s"
  "messagebox (reset_stale_cursor s) = messagebox s"
  by (simp_all add: reset_stale_cursor_def)

lemma play_song_empty:
  "current_playlist s = [] \<Longrightarrow>
   play_song (Suc n) w s = Some (showwarning (str ''Warning'') (str ''Playlist is empty!'') s)"
  by (simp add: play_song.simps)

text \<open>\<open>play_song\<close> from the point where the cursor has been resolved to the path \<open>p\<close>.\<close>

lemma play_song_resolved:
  assumes "current_playlist s \<noteq> []" and "current_track s = Inr p"
  shows "play_song (Suc n) w s =
     (if \<not> path_exists w p then
        Some (showerror (str ''Error'') (str ''File not found:'' @ [10] @ p) (reset_stale_cursor s))
      else
        (case backend_stop (backend s) of
           Inl e \<Rightarrow>
             Some (showerror (str ''Error'') (str ''Could not play song:'' @ [10] @ exn_str e)
                     (reset_stale_cursor s))
         | Inr b1 \<Rightarrow>
             (case backend_play w p b1 of
                Inl e \<Rightarrow>
                  Some (showerror (str ''Error'') (str ''Could not play song:'' @ [10] @ exn_str e)
                          ((reset_stale_cursor s)\<lparr>backend := b1\<rparr>))
              | Inr b2 \<Rightarrow>
                  (case check_song_end n w
                          ((reset_stale_cursor s)\<lparr>backend := b2, is_playing := True,
                             is_paused := False, current_song_label := song_label_text w p\<rparr>) of
                     None \<Rightarrow> None
                   | Some (Inl e) \<Rightarrow>
                       Some (play_song_except e
                          ((reset_stale_cursor s)\<lparr>backend := b2, is_playing := True,
                             is_paused := False, current_song_label := song_label_text w p\<rparr>))
                   | Some (Inr s') \<Rightarrow> Some s'))))"
proof -
  show ?thesis
    apply (subst play_song.simps(2))
    apply (fold reset_stale_cursor_def)
    using assms by (simp add: Let_def current_track_def split: sum.splits)
qed

text \<open>
  Claim C6. On an empty view \<open>play_song\<close> returns after the warning \<open>Playlist is empty!\<close>: the
  new state is the old one with that dialog added, so no attribute of the player has changed
  and the transport state is what it was (\<open>Stopped\<close> when it was \<open>Stopped\<close>).
\<close>

theorem play_song_empty_playlist:
  assumes "current_playlist s = []"
  shows "\<exists>s'. play_song (Suc n) w s = Some s' \<and>
           s' = s\<lparr>messagebox := messagebox s @
                    [Dialog ShowWarning (str ''Warning'') (str ''Playlist is empty!'')]\<rparr> \<and>
           transport_state s' = transport_state s"
  using assms by (simp add: play_song_empty showwarning_def transport_state_def)

theorem play_song_empty_playlist_witness:
  "current_playlist empty_player = [] \<and>
   transport_state empty_player = Stopped \<and>
   (\<exists>s'. play_song 1 quiet_world empty_player = Some s' \<and>
      s' = empty_player\<lparr>messagebox :=
             [Dialog ShowWarning (str ''Warning'') (str ''Playlist is empty!'')]\<rparr> \<and>
      transport_state s' = Stopped)"
proof -
  have e: "current_playlist empty_player = []"
    by (simp add: empty_player_def select_playlist_def update_song_list_display_def
        demo_player_def str_def)
  have m: "messagebox empty_player = []" "transport_state empty_player = Stopped"
    by (simp_all add: empty_player_def select_playlist_def update_song_list_display_def
        demo_player_def transport_state_def)
  show ?thesis
    using play_song_empty_playlist [OF e, of 0 quiet_world] e m by simp
qed

text \<open>
  Claim C5. \<open>play_song\<close> fails in three ways: the view is empty, the file of the resolved
  track does not exist, or the backend raises while stopping the old track or loading and
  starting the new one. In each case the call returns after exactly one warning or error
  dialog, and \<open>is_playing\<close> and \<open>is_paused\<close> are what they were before the call.
\<close>

theorem play_song_failure_keeps_transport:
  assumes "current_playlist s = [] \<or>
           (current_playlist s \<noteq> [] \<and> current_track s = Inr p \<and> \<not> path_exists w p) \<or>
           (current_playlist s \<noteq> [] \<and> current_track s = Inr p \<and> path_exists w p \<and>
              (backend_stop (backend s) = Inl e \<or>
               (\<exists>b1. backend_stop (backend s) = Inr b1 \<and> backend_play w p b1 = Inl e)))"
  shows "\<exists>s' d. play_song (Suc n) w s = Some s' \<and>
           messagebox s' = messagebox s @ [d] \<and>
           (dialog_kind_of d = ShowWarning \<or> dialog_kind_of d = ShowError) \<and>
           is_playing s' = is_playing s \<and> is_paused s' = is_paused s \<and>
           transport_state s' = transport_state s"
  using assms
proof (elim disjE conjE exE)
  assume "current_playlist s = []"
  then show ?thesis
    by (simp add: play_song_empty showwarning_def transport_state_def)
next
  assume "current_playlist s \<noteq> []" "current_track s = Inr p" "\<not> path_exists w p"
  then show ?thesis
    by (simp add: play_song_resolved showerror_def transport_state_def)
next
  assume "current_playlist s \<noteq> []" "current_track s = Inr p" "path_exists w p"
    "backend_stop (backend s) = Inl e"
  then show ?thesis
    by (simp add: play_song_resolved showerror_def transport_state_def)
next
  fix b1
  assume "current_playlist s \<noteq> []" "current_track s = Inr p" "path_exists w p"
    "backend_stop (backend s) = Inr b1" "backend_play w p b1 = Inl e"
  then show ?thesis
    by (simp add: play_song_resolved showerror_def transport_state_def)
qed

lemma demo_track: "current_track (demo_player b) = Inr song_c"
  by (simp add: current_track_def reset_stale_cursor_def demo_player_def py_index_def)

lemma demo_track_playing: "current_track ((demo_player b)\<lparr>is_playing := True\<rparr>) = Inr song_c"
  by (simp add: current_track_def reset_stale_cursor_def demo_player_def py_index_def)

theorem play_song_failure_keeps_transport_witness:
  "current_playlist empty_player = [] \<and>
   (\<exists>s' d. play_song 1 quiet_world empty_player = Some s' \<and>
      messagebox s' = [d] \<and>
      (dialog_kind_of d = ShowWarning \<or> dialog_kind_of d = ShowError) \<and>
      \<not> is_playing s' \<and> \<not> is_paused s' \<and> transport_state s' = Stopped) \<and>
   current_track ((demo_player pygame_backend)\<lparr>is_playing := True\<rparr>) = Inr song_c \<and>
   \<not> path_exists missing_world song_c \<and>
   transport_state ((demo_player pygame_backend)\<lparr>is_playing := True\<rparr>) = Playing \<and>
   (\<exists>s' d. play_song 1 missing_world ((demo_player pygame_backend)\<lparr>is_playing := True\<rparr>) = Some s' \<and>
      messagebox s' = [d] \<and>
      (dialog_kind_of d = ShowWarning \<or> dialog_kind_of d = ShowError) \<and>
      is_playing s' \<and> \<not> is_paused s' \<and> transport_state s' = Playing) \<and>
   backend_stop pygame_backend = Inr pygame_backend \<and>
   backend_play modplug_world song_c pygame_backend =
     Inl (PyException (modplug_message (str ''ModPlug_load failed.''))) \<and>
   (\<exists>s' d. play_song 1 modplug_world ((demo_player pygame_backend)\<lparr>is_paused := True\<rparr>) = Some s' \<and>
      messagebox s' = [d] \<and>
      (dialog_kind_of d = ShowWarning \<or> dialog_kind_of d = ShowError) \<and>
      \<not> is_playing s' \<and> is_paused s' \<and> transport_state s' = Paused)"
proof -
  let ?e = "PyException (modplug_message (str ''ModPlug_load failed.''))"
  txt \<open>the empty view\<close>
  have e: "current_playlist empty_player = []"
    by (simp add: empty_player_def select_playlist_def update_song_list_display_def
        demo_player_def str_def)
  have ef: "messagebox empty_player = []" "\<not> is_playing empty_player"
    "\<not> is_paused empty_player" "transport_state empty_player = Stopped"
    by (simp_all add: empty_player_def select_playlist_def update_song_list_display_def
        demo_player_def transport_state_def)
  from e have "current_playlist empty_player = [] \<or>
      (current_playlist empty_player \<noteq> [] \<and> current_track empty_player = Inr song_c \<and>
         \<not> path_exists quiet_world song_c) \<or>
      (current_playlist empty_player \<noteq> [] \<and> current_track empty_player = Inr song_c \<and>
         path_exists quiet_world song_c \<and>
         (backend_stop (backend empty_player) = Inl ?e \<or>
          (\<exists>b1. backend_stop (backend empty_player) = Inr b1 \<and>
             backend_play quiet_world song_c b1 = Inl ?e)))"
    by blast
  from play_song_failure_keeps_transport [OF this, of 0] ef
  have first: "\<exists>s' d. play_song 1 quiet_world empty_player = Some s' \<and>
      messagebox s' = [d] \<and>
      (dialog_kind_of d = ShowWarning \<or> dialog_kind_of d = ShowError) \<and>
      \<not> is_playing s' \<and> \<not> is_paused s' \<and> transport_state s' = Stopped"
    by simp
  txt \<open>the missing file\<close>
  let ?s = "(demo_player pygame_backend)\<lparr>is_playing := True\<rparr>"
  have h: "current_playlist ?s \<noteq> [] \<and> current_track ?s = Inr song_c \<and>
      \<not> path_exists missing_world song_c"
    by (simp add: demo_track_playing) (simp add: demo_player_def missing_world_def)
  have f: "messagebox ?s = []" "is_playing ?s" "\<not> is_paused ?s" "transport_state ?s = Playing"
    by (simp_all add: demo_player_def transport_state_def)
  from h have "current_playlist ?s = [] \<or>
      (current_playlist ?s \<noteq> [] \<and> current_track ?s = Inr song_c \<and>
         \<not> path_exists missing_world song_c) \<or>
      (current_playlist ?s \<noteq> [] \<and> current_track ?s = Inr song_c \<and>
         path_exists missing_world song_c \<and>
         (backend_stop (backend ?s) = Inl ?e \<or>
          (\<exists>b1. backend_stop (backend ?s) = Inr b1 \<and>
             backend_play missing_world song_c b1 = Inl ?e)))"
    by blast
  from play_song_failure_keeps_transport [OF this, of 0] f
  have second: "\<exists>s' d. play_song 1 missing_world ?s = Some s' \<and>
      messagebox s' = [d] \<and>
      (dialog_kind_of d = ShowWarning \<or> dialog_kind_of d = ShowError) \<and>
      is_playing s' \<and> \<not> is_paused s' \<and> transport_state s' = Playing"
    by simp
  txt \<open>the backend that cannot decode the file\<close>
  let ?p = "(demo_player pygame_backend)\<lparr>is_paused := True\<rparr>"
  have st: "backend_stop pygame_backend = Inr pygame_backend"
    by (simp add: backend_stop_def mixer_stop_def pygame_backend_def)
  have pl: "backend_play modplug_world song_c pygame_backend = Inl ?e"
    by (simp add: backend_play_def mixer_load_play_def Let_def pygame_backend_def
        modplug_world_def quiet_world_def)
       (simp add: str_def)
  have g: "current_playlist ?p \<noteq> []" "current_track ?p = Inr song_c"
    "path_exists modplug_world song_c" "backend ?p = pygame_backend"
    "messagebox ?p = []" "\<not> is_playing ?p" "is_paused ?p" "transport_state ?p = Paused"
    by (simp_all add: demo_player_def current_track_def reset_stale_cursor_def py_index_def
        modplug_world_def quiet_world_def transport_state_def)
  from g st pl have "current_playlist ?p = [] \<or>
      (current_playlist ?p \<noteq> [] \<and> current_track ?p = Inr song_c \<and>
         \<not> path_exists modplug_world song_c) \<or>
      (current_playlist ?p \<noteq> [] \<and> current_track ?p = Inr song_c \<and>
         path_exists modplug_world song_c \<and>
         (backend_stop (backend ?p) = Inl ?e \<or>
          (\<exists>b1. backend_stop (backend ?p) = Inr b1 \<and>
             backend_play modplug_world song_c b1 = Inl ?e)))"
    by simp
  from play_song_failure_keeps_transport [OF this, of 0] g
  have third: "\<exists>s' d. play_song 1 modplug_world ?p = Some s' \<and>
      messagebox s' = [d] \<and>
      (dialog_kind_of d = ShowWarning \<or> dialog_kind_of d = ShowError) \<and>
      \<not> is_playing s' \<and> is_paused s' \<and> transport_state s' = Paused"
    by simp
  from e first h f(4) second st pl third show ?thesis by simp
qed

section \<open>The codec failure of pygame\<close>

lemma startswith_append: "startswith x (x @ b)"
  by (induction x) simp_all

lemma py_in_append: "py_in x (a @ x @ b)"
proof (induction a)
  case Nil
  show ?case by (cases "x @ b") (use startswith_append[of x b] in auto)
next
  case (Cons c a)
  then show ?case by simp
qed

lemma remediation_in_message: "py_in remediation_hint (modplug_message msg)"
proof -
  have "modplug_message msg =
      (str ''Pygame couldn'' @ [39] @ str ''t decode this file (ModPlug_load failed).'' @ [10, 10]) @
      remediation_hint @ ([10, 10] @ str ''Original error: '' @ msg)"
    by (simp add: modplug_message_def)
  then show ?thesis by (simp only: py_in_append)
qed

lemma backend_stop_config:
  "backend_stop b = Inr b1 \<Longrightarrow>
   use_vlc b1 = use_vlc b \<and> vlc_instance b1 = vlc_instance b \<and> vlc_player b1 = vlc_player b"
  by (auto simp: backend_stop_def vlc_stop_def mixer_stop_def split: if_splits option.splits)

text \<open>
  Claim C9. When pygame is the backend that loads the file and raises its \<open>pygame.error\<close>
  with \<open>ModPlug_load failed\<close> in the message, \<open>_backend_play\<close> raises a new exception instead,
  whose message contains the hint to install the VLC backend, and \<open>play_song\<close> shows that
  message in an error dialog and returns with the transport flags unchanged.
\<close>

theorem modplug_failure_reported:
  assumes pygame: "\<not> (use_vlc (backend s) \<and> vlc_instance (backend s) \<and> vlc_player (backend s))"
    and view: "current_playlist s \<noteq> []"
    and track: "current_track s = Inr p"
    and exist: "path_exists w p"
    and stop: "backend_stop (backend s) = Inr b1"
    and decode: "mixer_load_play w (normpath w p) b1 = Inl (PygameError msg)"
    and known: "py_in (str ''ModPlug_load failed'') msg"
  shows "backend_play w p b1 = Inl (PyException (modplug_message msg)) \<and>
         py_in remediation_hint (modplug_message msg) \<and>
         (\<exists>s'. play_song (Suc n) w s = Some s' \<and>
            messagebox s' = messagebox s @
              [Dialog ShowError (str ''Error'')
                 (str ''Could not play song:'' @ [10] @ modplug_message msg)] \<and>
            py_in remediation_hint (dialog_message (last (messagebox s'))) \<and>
            is_playing s' = is_playing s \<and> is_paused s' = is_paused s)"
proof -
  from pygame backend_stop_config [OF stop]
  have "\<not> (use_vlc b1 \<and> vlc_instance b1 \<and> vlc_player b1)" by simp
  with decode known
  have play: "backend_play w p b1 = Inl (PyException (modplug_message msg))"
    by (auto simp: backend_play_def Let_def)
  have "py_in remediation_hint ((str ''Could not play song:'' @ [10]) @ modplug_message msg)"
    unfolding modplug_message_def
    using py_in_append [of remediation_hint
        "(str ''Could not play song:'' @ [10]) @ str ''Pygame couldn'' @ [39] @ str ''t decode this file (ModPlug_load failed).'' @ [10, 10]"
        "[10, 10] @ str ''Original error: '' @ msg"]
    by simp
  then have "py_in remediation_hint (str ''Could not play song:'' @ [10] @ modplug_message msg)"
    by simp
  with view track exist stop play remediation_in_message [of msg]
  show ?thesis
    by (simp add: play_song_resolved showerror_def)
qed

theorem modplug_failure_reported_witness:
  "current_track (demo_player pygame_backend) = Inr song_c \<and>
   mixer_load_play modplug_world song_c pygame_backend =
     Inl (PygameError (str ''ModPlug_load failed.'')) \<and>
   (\<exists>s'. play_song 1 modplug_world (demo_player pygame_backend) = Some s' \<and>
      messagebox s' =
        [Dialog ShowError (str ''Error'')
           (str ''Could not play song:'' @ [10] @ modplug_message (str ''ModPlug_load failed.''))] \<and>
      py_in remediation_hint (dialog_message (last (messagebox s'))) \<and>
      \<not> is_playing s' \<and> \<not> is_paused s')"
proof -
  let ?s = "demo_player pygame_backend"
  have b: "backend ?s = pygame_backend" "current_playlist ?s \<noteq> []" "messagebox ?s = []"
     "\<not> is_playing ?s" "\<not> is_paused ?s"
    by (simp_all add: demo_player_def)
  have c: "\<not> (use_vlc (backend ?s) \<and> vlc_instance (backend ?s) \<and> vlc_player (backend ?s))"
    by (simp add: demo_player_def pygame_backend_def)
  have st: "backend_stop (backend ?s) = Inr pygame_backend"
    by (simp add: demo_player_def backend_stop_def mixer_stop_def pygame_backend_def)
  have ex: "path_exists modplug_world song_c" "normpath modplug_world song_c = song_c"
    by (simp_all add: modplug_world_def quiet_world_def)
  have ld: "mixer_load_play modplug_world (normpath modplug_world song_c) pygame_backend =
      Inl (PygameError (str ''ModPlug_load failed.''))"
    by (simp add: ex mixer_load_play_def modplug_world_def quiet_world_def pygame_backend_def)
  have kn: "py_in (str ''ModPlug_load failed'') (str ''ModPlug_load failed.'')"
    by (simp add: str_def)
  from modplug_failure_reported [OF c b(2) demo_track ex(1) st ld kn, of 0] ld b demo_track [of pygame_backend]
  show ?thesis by (simp add: ex)
qed

section \<open>The cursor\<close>

lemma current_track_resolves:
  "current_playlist s \<noteq> [] \<Longrightarrow> 0 \<le> current_index s \<Longrightarrow> \<exists>p. current_track s = Inr p"
  by (simp add: current_track_def reset_stale_cursor_def py_index_def)

lemma reset_stale_cursor_in_range:
  "0 \<le> current_index s \<Longrightarrow> cursor_in_range (reset_stale_cursor s)"
  by (auto simp: cursor_in_range_def reset_stale_cursor_def)

lemma check_song_end_Inr:
  "check_song_end n w s = Some (Inr s') \<Longrightarrow>
   s' = root_after 1000 CheckSongEnd s \<or>
   (is_playing s \<and> mixer_busy (backend s) = Inr False \<and> next_song n w s = Some s')"
  by (auto simp: check_song_end.simps split: if_splits sum.splits)

lemma next_song_nonempty:
  "current_playlist s \<noteq> [] \<Longrightarrow>
   next_song n w s =
     play_song n w (s\<lparr>current_index := (current_index s + 1) mod int (length (current_playlist s))\<rparr>)"
  by (simp add: next_song.simps)

lemma play_song_establishes_cursor:
  "play_song n w s = Some s' \<Longrightarrow> 0 \<le> current_index s \<Longrightarrow>
   cursor_in_range s' \<and> current_playlist s' = current_playlist s \<and> 0 \<le> current_index s'"
proof (induction n arbitrary: s s')
  case 0
  then show ?case by (simp add: play_song.simps)
next
  case (Suc n)
  show ?case
  proof (cases "current_playlist s = []")
    case True
    with Suc.prems show ?thesis
      by (auto simp: play_song_empty showwarning_def cursor_in_range_def)
  next
    case False
    with Suc.prems obtain p where p: "current_track s = Inr p"
      using current_track_resolves by blast
    let ?r = "reset_stale_cursor s"
    have r1: "cursor_in_range ?r"
      using Suc.prems(2) by (rule reset_stale_cursor_in_range)
    have r2: "0 \<le> current_index ?r"
      using Suc.prems(2) by (simp add: reset_stale_cursor_def)
    have frame: "cursor_in_range x \<and> current_playlist x = current_playlist s \<and> 0 \<le> current_index x"
      if "current_playlist x = current_playlist ?r" "current_index x = current_index ?r" for x
      using that r1 r2 by (simp add: cursor_in_range_def)
    note run = Suc.prems(1) [unfolded play_song_resolved [OF False p]]
    show ?thesis
    proof (cases "path_exists w p")
      case False
      with run have "s' = showerror (str ''Error'') (str ''File not found:'' @ [10] @ p) ?r"
        by simp
      then show ?thesis by (intro frame) (simp_all add: showerror_def)
    next
      case exist: True
      show ?thesis
      proof (cases "backend_stop (backend s)")
        case (Inl e)
        with run exist
        have "s' = showerror (str ''Error'') (str ''Could not play song:'' @ [10] @ exn_str e) ?r"
          by simp
        then show ?thesis by (intro frame) (simp_all add: showerror_def)
      next
        case stop: (Inr b1)
        show ?thesis
        proof (cases "backend_play w p b1")
          case (Inl e)
          with run exist stop
          have "s' = showerror (str ''Error'') (str ''Could not play song:'' @ [10] @ exn_str e)
                       (?r\<lparr>backend := b1\<rparr>)"
            by simp
          then show ?thesis by (intro frame) (simp_all add: showerror_def)
        next
          case play: (Inr b2)
          let ?s3 = "?r\<lparr>backend := b2, is_playing := True, is_paused := False,
                        current_song_label := song_label_text w p\<rparr>"
          from run exist stop play
          have chk: "(case check_song_end n w ?s3 of None \<Rightarrow> None
                      | Some (Inl e) \<Rightarrow> Some (play_song_except e ?s3)
                      | Some (Inr s') \<Rightarrow> Some s') = Some s'"
            by simp
          show ?thesis
          proof (cases "check_song_end n w ?s3")
            case None
            with chk show ?thesis by simp
          next
            case (Some x)
            show ?thesis
            proof (cases x)
              case (Inl e)
              with chk Some have "s' = play_song_except e ?s3" by simp
              then show ?thesis
                by (intro frame) (simp_all add: play_song_except_def showerror_def)
            next
              case (Inr y)
              with chk Some have y: "check_song_end n w ?s3 = Some (Inr s')" by simp
              from check_song_end_Inr [OF y] show ?thesis
              proof (elim disjE conjE)
                assume "s' = root_after 1000 CheckSongEnd ?s3"
                then show ?thesis by (intro frame) (simp_all add: root_after_def)
              next
                assume nx: "next_song n w ?s3 = Some s'"
                let ?s4 = "?s3\<lparr>current_index :=
                    (current_index ?s3 + 1) mod int (length (current_playlist ?s3))\<rparr>"
                have ne: "current_playlist ?s3 \<noteq> []" using False by simp
                from nx have ps: "play_song n w ?s4 = Some s'"
                  by (simp only: next_song_nonempty [OF ne])
                have "0 \<le> current_index ?s4" using False by simp
                from Suc.IH [OF ps this] show ?thesis by simp
              qed
            qed
          qed
        qed
      qed
    qed
  qed
qed

subsection \<open>With pygame as the backend\<close>

text \<open>
  A track that pygame has started makes the mixer busy, so \<open>check_song_end\<close> only registers
  its timer: \<open>play_song\<close> completes, and \<open>next_song\<close> moves the cursor by one, modulo the
  length of the view.
\<close>

lemma backend_stop_pygame:
  "\<not> use_vlc b \<Longrightarrow> backend_stop b = Inr b1 \<Longrightarrow> \<not> use_vlc b1"
  by (auto simp: backend_stop_def mixer_stop_def split: option.splits)

lemma backend_play_pygame:
  "\<not> use_vlc b \<Longrightarrow> backend_play w p b = Inr b2 \<Longrightarrow> \<not> use_vlc b2 \<and> mixer_busy b2 = Inr True"
  by (auto simp: backend_play_def mixer_load_play_def Let_def split: option.splits sum.splits exn.splits if_splits)

lemma check_song_end_busy:
  "mixer_busy (backend s) = Inr True \<Longrightarrow>
   check_song_end n w s = Some (Inr (root_after 1000 CheckSongEnd s))"
  by (simp add: check_song_end.simps)

lemma play_song_pygame:
  assumes pg: "\<not> use_vlc (backend s)" and ne: "current_playlist s \<noteq> []"
    and nn: "0 \<le> current_index s"
  shows "\<exists>s'. play_song (Suc n) w s = Some s' \<and>
           current_index s' = current_index (reset_stale_cursor s) \<and>
           current_playlist s' = current_playlist s \<and> \<not> use_vlc (backend s')"
proof -
  from ne nn obtain p where p: "current_track s = Inr p"
    using current_track_resolves by blast
  let ?r = "reset_stale_cursor s"
  show ?thesis
  proof (cases "path_exists w p")
    case False
    then show ?thesis using pg by (simp add: play_song_resolved [OF ne p] showerror_def)
  next
    case exist: True
    show ?thesis
    proof (cases "backend_stop (backend s)")
      case (Inl e)
      then show ?thesis using pg exist by (simp add: play_song_resolved [OF ne p] showerror_def)
    next
      case stop: (Inr b1)
      have b1: "\<not> use_vlc b1" using pg stop by (rule backend_stop_pygame)
      show ?thesis
      proof (cases "backend_play w p b1")
        case (Inl e)
        then show ?thesis
          using b1 exist stop by (simp add: play_song_resolved [OF ne p] showerror_def)
      next
        case play: (Inr b2)
        from backend_play_pygame [OF b1 play]
        have b2: "\<not> use_vlc b2" "mixer_busy b2 = Inr True" by simp_all
        let ?s3 = "?r\<lparr>backend := b2, is_playing := True, is_paused := False,
                      current_song_label := song_label_text w p\<rparr>"
        have "check_song_end n w ?s3 = Some (Inr (root_after 1000 CheckSongEnd ?s3))"
          by (rule check_song_end_busy) (simp add: b2)
        then show ?thesis
          using b2 exist stop play by (simp add: play_song_resolved [OF ne p] root_after_def)
      qed
    qed
  qed
qed

lemma next_song_pygame:
  assumes pg: "\<not> use_vlc (backend s)" and ne: "current_playlist s \<noteq> []"
  shows "\<exists>s'. next_song (Suc n) w s = Some s' \<and>
           current_index s' = (current_index s + 1) mod int (length (current_playlist s)) \<and>
           current_playlist s' = current_playlist s \<and> \<not> use_vlc (backend s')"
proof -
  let ?s1 = "s\<lparr>current_index := (current_index s + 1) mod int (length (current_playlist s))\<rparr>"
  have len: "0 < int (length (current_playlist s))" using ne by simp
  have rng: "0 \<le> current_index ?s1" "current_index ?s1 < int (length (current_playlist ?s1))"
    using len by simp_all
  then have rs: "reset_stale_cursor ?s1 = ?s1" by (simp add: reset_stale_cursor_def)
  from play_song_pygame [of ?s1 n w] pg ne rng(1) rs
  show ?thesis by (simp add: next_song_nonempty [OF ne])
qed

lemma next_song_times_pygame:
  assumes "\<not> use_vlc (backend s)" and "current_playlist s \<noteq> []"
    and "0 \<le> current_index s" and "current_index s < int (length (current_playlist s))"
  shows "\<exists>s'. next_song_times k (Suc n) w s = Some s' \<and>
           current_index s' = (current_index s + int k) mod int (length (current_playlist s)) \<and>
           current_playlist s' = current_playlist s \<and> \<not> use_vlc (backend s')"
  using assms
proof (induction k arbitrary: s)
  case 0
  then show ?case by simp
next
  case (Suc k)
  from next_song_pygame [OF Suc.prems(1,2), of n w] obtain s1 where
    s1: "next_song (Suc n) w s = Some s1"
      "current_index s1 = (current_index s + 1) mod int (length (current_playlist s))"
      "current_playlist s1 = current_playlist s" "\<not> use_vlc (backend s1)"
    by blast
  have len: "0 < int (length (current_playlist s))" using Suc.prems(2) by simp
  have "0 \<le> current_index s1" "current_index s1 < int (length (current_playlist s1))"
    using len by (simp_all add: s1)
  from Suc.IH [OF s1(4) _ this] s1 Suc.prems(2) obtain s' where
    s': "next_song_times k (Suc n) w s1 = Some s'"
      "current_index s' = (current_index s1 + int k) mod int (length (current_playlist s1))"
      "current_playlist s' = current_playlist s1" "\<not> use_vlc (backend s')"
    by auto
  have "((current_index s + 1) mod int (length (current_playlist s)) + int k)
          mod int (length (current_playlist s)) =
        (current_index s + 1 + int k) mod int (length (current_playlist s))"
    by (rule mod_add_left_eq)
  then have "(current_index s1 + int k) mod int (length (current_playlist s1)) =
        (current_index s + int (Suc k)) mod int (length (current_playlist s))"
    by (simp add: s1 add.assoc)
  with s1 s' show ?case by simp
qed

lemma next_song_closure_pygame:
  assumes "\<not> use_vlc (backend s)" and "current_playlist s \<noteq> []"
    and "0 \<le> current_index s" and "current_index s < int (length (current_playlist s))"
  shows "\<exists>s'. next_song_times (length (current_playlist s)) (Suc n) w s = Some s' \<and>
           current_index s' = current_index s \<and> current_playlist s' = current_playlist s"
  using next_song_times_pygame [OF assms, of "length (current_playlist s)" n w] assms(3,4)
  by auto

subsection \<open>With VLC as the backend\<close>

text \<open>
  With VLC as the backend nothing makes the pygame mixer busy, so each \<open>play_song\<close> that
  starts a track finds the mixer idle in \<open>check_song_end\<close> and goes on to the next track:
  however many nested activations are allowed, the call does not complete.
\<close>

lemma play_song_vlc_never_completes:
  assumes "use_vlc (backend s)" "vlc_instance (backend s)" "vlc_player (backend s)"
    and "vlc_fault (backend s) = None" and "mixer_busy (backend s) = Inr False"
    and "current_playlist s \<noteq> []" and "0 \<le> current_index s"
    and "\<forall>p \<in> set (current_playlist s). path_exists w p \<and> vlc_load_error w (normpath w p) = None"
  shows "play_song n w s = None"
  using assms
proof (induction n arbitrary: s)
  case 0
  show ?case by (simp add: play_song.simps)
next
  case (Suc n)
  let ?r = "reset_stale_cursor s"
  have ne: "current_playlist s \<noteq> []" by fact
  let ?p = "current_playlist s ! nat (current_index ?r)"
  have rng: "0 \<le> current_index ?r \<and> current_index ?r < int (length (current_playlist s))"
    using Suc.prems(6,7) by (simp add: reset_stale_cursor_def)
  then have p: "current_track s = Inr ?p"
    by (simp add: current_track_def py_index_def)
  from rng have "nat (current_index ?r) < length (current_playlist s)" by linarith
  then have mem: "?p \<in> set (current_playlist s)" by (rule nth_mem)
  from mem Suc.prems(8) have ok: "path_exists w ?p" "vlc_load_error w (normpath w ?p) = None"
    by auto
  let ?b1 = "(backend s)\<lparr>vlc_is_playing := Inr 0\<rparr>"
  let ?b2 = "?b1\<lparr>vlc_media := Some (normpath w ?p), vlc_is_playing := Inr 1\<rparr>"
  have stop: "backend_stop (backend s) = Inr ?b1"
    using Suc.prems by (simp add: backend_stop_def vlc_stop_def)
  have play: "backend_play w ?p ?b1 = Inr ?b2"
    using Suc.prems ok by (simp add: backend_play_def vlc_play_def Let_def)
  let ?s3 = "?r\<lparr>backend := ?b2, is_playing := True, is_paused := False,
                current_song_label := song_label_text w ?p\<rparr>"
  let ?s4 = "?s3\<lparr>current_index :=
                (current_index ?s3 + 1) mod int (length (current_playlist ?s3))\<rparr>"
  have "play_song n w ?s4 = None"
    using Suc.prems by (intro Suc.IH) simp_all
  then have "next_song n w ?s3 = None"
    using ne by (simp add: next_song.simps)
  then have "check_song_end n w ?s3 = None"
    using Suc.prems(5) by (simp add: check_song_end.simps)
  then show ?case
    using ok stop play by (simp add: play_song_resolved [OF ne p])
qed

section \<open>The cursor invariant\<close>

lemma length_remove1_mem:
  assumes "x \<in> set xs"
  shows "int (length (remove1 x xs)) = int (length xs) - 1"
proof -
  from assms have "1 \<le> length xs" by (cases xs) auto
  then have "int (length xs - 1) = int (length xs) - 1" by linarith
  with assms show ?thesis by (simp add: length_remove1)
qed

lemma py_index_mem: "py_index xs i = Inr x \<Longrightarrow> x \<in> set xs"
  by (auto simp: py_index_def Let_def split: if_splits)

lemma remove_song_cases:
  assumes "remove_song_from_current_playlist w i s = Inr s'"
  shows "s' = s \<or>
         (\<exists>p. i < int (length (current_playlist s)) \<and> py_index (current_playlist s) i = Inr p \<and>
            current_playlist s' = remove1 p (current_playlist s) \<and>
            current_index s' =
              (if i \<le> current_index s \<and> current_index s > 0 then current_index s - 1
               else current_index s))"
proof (cases "i < int (length (current_playlist s))")
  case False
  with assms show ?thesis by (simp add: remove_song_from_current_playlist_def)
next
  case i: True
  show ?thesis
  proof (cases "py_index (current_playlist s) i")
    case (Inl e)
    with assms i show ?thesis by (simp add: remove_song_from_current_playlist_def)
  next
    case p: (Inr p)
    show ?thesis
    proof (cases "playlists s (current_playlist_name s)")
      case None
      with assms i p show ?thesis by (simp add: remove_song_from_current_playlist_def)
    next
      case (Some songs)
      show ?thesis
      proof (cases "p \<in> set songs")
        case False
        with assms i p Some show ?thesis by (simp add: remove_song_from_current_playlist_def)
      next
        case True
        with assms i p Some have
          "current_playlist s' = remove1 p (current_playlist s) \<and>
           current_index s' =
              (if i \<le> current_index s \<and> current_index s > 0 then current_index s - 1
               else current_index s)"
          by (auto simp: remove_song_from_current_playlist_def Let_def showinfo_def
              update_song_list_display_def split: if_splits)
        with i p show ?thesis by blast
      qed
    qed
  qed
qed

lemma remove_song_keeps_cursor:
  assumes inv: "cursor_in_range s"
    and rem: "remove_song_from_current_playlist w i s = Inr s'"
  shows "cursor_in_range s'"
  using remove_song_cases [OF rem]
proof (elim disjE exE conjE)
  assume "s' = s"
  with inv show ?thesis by simp
next
  fix p
  assume i: "i < int (length (current_playlist s))"
    and p: "py_index (current_playlist s) i = Inr p"
    and s': "current_playlist s' = remove1 p (current_playlist s)"
        "current_index s' =
           (if i \<le> current_index s \<and> current_index s > 0 then current_index s - 1
            else current_index s)"
  from p have mem: "p \<in> set (current_playlist s)" by (rule py_index_mem)
  then have ne: "current_playlist s \<noteq> []" by auto
  with inv have c: "0 \<le> current_index s" "current_index s < int (length (current_playlist s))"
    by (simp_all add: cursor_in_range_def)
  have len: "int (length (current_playlist s')) = int (length (current_playlist s)) - 1"
    using mem by (simp add: s' length_remove1_mem)
  show ?thesis
    unfolding cursor_in_range_def
  proof (intro impI)
    assume "current_playlist s' \<noteq> []"
    then have "0 < int (length (current_playlist s'))" by simp
    with len c i show "0 \<le> current_index s' \<and> current_index s' < int (length (current_playlist s'))"
      unfolding s'(2) by (cases "i \<le> current_index s \<and> current_index s > 0") auto
  qed
qed

lemma select_playlist_view:
  "current_playlist (select_playlist w name s) =
     (if name = str ''All'' then all_songs s
      else if name = str ''Favourite'' then favourites s
      else (case playlists s name of None \<Rightarrow> [] | Some songs \<Rightarrow> songs))"
  by (simp add: select_playlist_def update_song_list_display_def)

lemma select_playlist_cursor: "current_index (select_playlist w name s) = current_index s"
  by (simp add: select_playlist_def update_song_list_display_def)

lemma previous_song_nonempty:
  "current_playlist s \<noteq> [] \<Longrightarrow>
   previous_song n w s =
     play_song n w (s\<lparr>current_index := (current_index s - 1) mod int (length (current_playlist s))\<rparr>)"
  by (simp add: previous_song_def)

lemma step_establishes_cursor:
  assumes "cursor_in_range s \<or> 0 \<le> current_index s"
  shows "(play_song n w s = Some s' \<longrightarrow> cursor_in_range s') \<and>
         (next_song n w s = Some s' \<longrightarrow> cursor_in_range s') \<and>
         (previous_song n w s = Some s' \<longrightarrow> cursor_in_range s')"
proof (cases "current_playlist s = []")
  case True
  have "cursor_in_range s" using True by (simp add: cursor_in_range_def)
  moreover have "play_song n w s = Some s' \<longrightarrow> cursor_in_range s'"
  proof (cases n)
    case 0
    then show ?thesis by (simp add: play_song.simps(1))
  next
    case (Suc m)
    with True show ?thesis
      by (auto simp: play_song_empty showwarning_def cursor_in_range_def)
  qed
  moreover have "next_song n w s = Some s' \<longrightarrow> cursor_in_range s'"
    using True calculation(1) by (auto simp: next_song.simps)
  moreover have "previous_song n w s = Some s' \<longrightarrow> cursor_in_range s'"
    using True calculation(1) by (auto simp: previous_song_def)
  ultimately show ?thesis by blast
next
  case False
  with assms have nn: "0 \<le> current_index s" by (auto simp: cursor_in_range_def)
  have len: "0 < int (length (current_playlist s))" using False by simp
  have "play_song n w s = Some s' \<longrightarrow> cursor_in_range s'"
    using play_song_establishes_cursor [of n w s s'] nn by blast
  moreover have "next_song n w s = Some s' \<longrightarrow> cursor_in_range s'"
    using play_song_establishes_cursor
      [of n w "s\<lparr>current_index := (current_index s + 1) mod int (length (current_playlist s))\<rparr>" s']
      len
    by (simp add: next_song_nonempty [OF False])
  moreover have "previous_song n w s = Some s' \<longrightarrow> cursor_in_range s'"
    using play_song_establishes_cursor
      [of n w "s\<lparr>current_index := (current_index s - 1) mod int (length (current_playlist s))\<rparr>" s']
      len
    by (simp add: previous_song_nonempty [OF False])
  ultimately show ?thesis by blast
qed

lemma demo_in_range: "cursor_in_range (demo_player b)"
  by (simp add: cursor_in_range_def demo_player_def)

lemma names_distinct:
  "str ''Rock'' \<noteq> str ''All''" "str ''Rock'' \<noteq> str ''Favourite''"
  "str ''Favourite'' \<noteq> str ''All''" "str ''All'' \<noteq> str ''Rock''"
  "str ''Favourite'' \<noteq> str ''Rock''" "str ''All'' \<noteq> str ''Favourite''"
  by (simp_all add: str_def)

lemma demo_rock_view:
  "current_playlist (select_playlist w (str ''Rock'') (demo_player b)) = [song_a]"
  by (simp add: select_playlist_view names_distinct) (simp add: demo_player_def names_distinct)

lemma demo_rock_cursor:
  "current_index (select_playlist w (str ''Rock'') (demo_player b)) = 2"
  by (simp add: select_playlist_cursor) (simp add: demo_player_def)

text \<open>
  Claim C2, as stated, fails for \<open>select_playlist\<close>: it replaces the view and leaves the
  cursor where it was. In the demo player the cursor is 2 in a view of three songs; after
  the playlist \<open>Rock\<close> (one song) has been selected the view is not empty and the cursor is
  still 2.
\<close>

theorem select_playlist_breaks_cursor:
  "cursor_in_range (demo_player pygame_backend) \<and>
   current_playlist (select_playlist quiet_world (str ''Rock'') (demo_player pygame_backend)) \<noteq> [] \<and>
   \<not> cursor_in_range (select_playlist quiet_world (str ''Rock'') (demo_player pygame_backend))"
proof -
  have "\<not> cursor_in_range (select_playlist quiet_world (str ''Rock'') (demo_player pygame_backend))"
    by (simp add: cursor_in_range_def demo_rock_view demo_rock_cursor)
  then show ?thesis by (simp add: demo_in_range demo_rock_view)
qed

text \<open>
  Claim C2, amended. The cursor lies inside a non-empty view after \<open>play_song\<close>, \<open>next_song\<close>
  and \<open>previous_song\<close>, whenever such a call completes and the cursor was in range or at least
  not negative before (\<open>play_song\<close> resets a cursor at or beyond the end of the view to 0).
  \<open>remove_song_from_current_playlist\<close> preserves the invariant. \<open>select_playlist\<close> leaves the
  cursor unchanged while it replaces the view.
\<close>

theorem cursor_in_range_preserved:
  "(cursor_in_range s \<or> 0 \<le> current_index s \<longrightarrow>
      (\<forall>s'. play_song n w s = Some s' \<longrightarrow> cursor_in_range s') \<and>
      (\<forall>s'. next_song n w s = Some s' \<longrightarrow> cursor_in_range s') \<and>
      (\<forall>s'. previous_song n w s = Some s' \<longrightarrow> cursor_in_range s')) \<and>
   (cursor_in_range s \<longrightarrow>
      (\<forall>s'. remove_song_from_current_playlist w i s = Inr s' \<longrightarrow> cursor_in_range s')) \<and>
   current_index (select_playlist w name s) = current_index s \<and>
   current_playlist (select_playlist w name s) =
     (if name = str ''All'' then all_songs s
      else if name = str ''Favourite'' then favourites s
      else (case playlists s name of None \<Rightarrow> [] | Some songs \<Rightarrow> songs))"
proof (intro conjI impI allI)
  fix s'
  assume a: "cursor_in_range s \<or> 0 \<le> current_index s"
  {
    assume "play_song n w s = Some s'"
    with step_establishes_cursor [OF a, of n w s'] show "cursor_in_range s'" by blast
  }
  {
    assume "next_song n w s = Some s'"
    with step_establishes_cursor [OF a, of n w s'] show "cursor_in_range s'" by blast
  }
  {
    assume "previous_song n w s = Some s'"
    with step_establishes_cursor [OF a, of n w s'] show "cursor_in_range s'" by blast
  }
next
  fix s'
  assume "cursor_in_range s" "remove_song_from_current_playlist w i s = Inr s'"
  then show "cursor_in_range s'" by (rule remove_song_keeps_cursor)
next
  show "current_index (select_playlist w name s) = current_index s"
    by (rule select_playlist_cursor)
  show "current_playlist (select_playlist w name s) =
     (if name = str ''All'' then all_songs s
      else if name = str ''Favourite'' then favourites s
      else (case playlists s name of None \<Rightarrow> [] | Some songs \<Rightarrow> songs))"
    by (rule select_playlist_view)
qed

lemma demo_remove:
  "\<exists>s'. remove_song_from_current_playlist quiet_world 1 (demo_player pygame_backend) = Inr s' \<and>
      current_index s' = 1 \<and> current_playlist s' = [song_a, song_c]"
proof -
  have d: "song_b \<noteq> song_a" "song_b \<noteq> song_c"
    by (simp_all add: song_a_def song_b_def song_c_def str_def)
  show ?thesis
    by (simp add: remove_song_from_current_playlist_def demo_player_def py_index_def Let_def
        showinfo_def update_song_list_display_def d names_distinct)
qed

theorem cursor_in_range_preserved_witness:
  "cursor_in_range (demo_player pygame_backend) \<and>
   (\<exists>s'. next_song 1 quiet_world (demo_player pygame_backend) = Some s' \<and>
      current_index s' = 0 \<and> cursor_in_range s') \<and>
   (\<exists>s'. remove_song_from_current_playlist quiet_world 1 (demo_player pygame_backend) = Inr s' \<and>
      current_index s' = 1 \<and> cursor_in_range s') \<and>
   current_index (select_playlist quiet_world (str ''Rock'') (demo_player pygame_backend)) = 2"
proof -
  let ?s = "demo_player pygame_backend"
  note inv = cursor_in_range_preserved [of ?s 1 quiet_world 1 "str ''Rock''"]
  have c: "cursor_in_range ?s" by (rule demo_in_range)
  have pg: "\<not> use_vlc (backend ?s)" "current_playlist ?s \<noteq> []"
    by (simp_all add: demo_player_def pygame_backend_def)
  from next_song_pygame [OF pg, of 0 quiet_world] obtain s1 where
    s1: "next_song 1 quiet_world ?s = Some s1" "current_index s1 = 0"
    by (auto simp: demo_player_def)
  from inv c s1(1) have "cursor_in_range s1" by blast
  with s1 have n: "\<exists>s'. next_song 1 quiet_world ?s = Some s' \<and> current_index s' = 0 \<and>
      cursor_in_range s'"
    by blast
  from demo_remove obtain s2 where
    s2: "remove_song_from_current_playlist quiet_world 1 ?s = Inr s2" "current_index s2 = 1"
    by blast
  from inv c s2(1) have "cursor_in_range s2" by blast
  with s2 have r: "\<exists>s'. remove_song_from_current_playlist quiet_world 1 ?s = Inr s' \<and>
      current_index s' = 1 \<and> cursor_in_range s'"
    by blast
  from c n r show ?thesis by (simp add: demo_rock_cursor)
qed

section \<open>Selecting a playlist\<close>

text \<open>
  Claim C1, as stated, fails in one point: \<open>select_playlist\<close> does not reset the cursor. In
  the demo player the cursor is 2, and it is still 2, not 0, after \<open>Rock\<close> has been selected.
\<close>

theorem select_playlist_keeps_cursor:
  "current_index (demo_player pygame_backend) = 2 \<and>
   current_index (select_playlist quiet_world (str ''Rock'') (demo_player pygame_backend)) \<noteq> 0"
  by (simp add: demo_rock_cursor) (simp add: demo_player_def)

text \<open>
  Claim C1, amended. \<open>select_playlist\<close> takes the name of a playlist. It makes a copy of that
  playlist the current view (the library for \<open>All\<close>, the favourites for \<open>Favourite\<close>, the
  playlist stored under the name otherwise, the empty list when there is none), records
  the name and fills the list box with the titles. It leaves the cursor as it is. It starts
  nothing and stops nothing: the transport flags, the backend, the volume, the dialogs and
  the registered callbacks are unchanged, and so are the library and the stored playlists.
\<close>

theorem select_playlist_replaces_view:
  "current_playlist (select_playlist w name s) =
     (if name = str ''All'' then all_songs s
      else if name = str ''Favourite'' then favourites s
      else (case playlists s name of None \<Rightarrow> [] | Some songs \<Rightarrow> songs)) \<and>
   current_playlist_name (select_playlist w name s) = name \<and>
   song_listbox (select_playlist w name s) =
     map (get_song_info w) (current_playlist (select_playlist w name s)) \<and>
   current_index (select_playlist w name s) = current_index s \<and>
   is_playing (select_playlist w name s) = is_playing s \<and>
   is_paused (select_playlist w name s) = is_paused s \<and>
   transport_state (select_playlist w name s) = transport_state s \<and>
   backend (select_playlist w name s) = backend s \<and>
   volume (select_playlist w name s) = volume s \<and>
   current_song_label (select_playlist w name s) = current_song_label s \<and>
   progress_var (select_playlist w name s) = progress_var s \<and>
   messagebox (select_playlist w name s) = messagebox s \<and>
   after_calls (select_playlist w name s) = after_calls s \<and>
   all_songs (select_playlist w name s) = all_songs s \<and>
   favourites (select_playlist w name s) = favourites s \<and>
   playlists (select_playlist w name s) = playlists s"
  by (simp add: select_playlist_def update_song_list_display_def transport_state_def)

section \<open>Volume\<close>

subsection \<open>Rounding to a float\<close>

lemma exp_up_numeral:
  "exp_up (numeral n) e a = (if pow2 (e + 1) \<le> a then exp_up (pred_numeral n) (e + 1) a else e)"
  by (simp add: numeral_eq_Suc)

lemma exp_down_numeral:
  "exp_down (numeral n) e a = (if a < pow2 e then exp_down (pred_numeral n) (e - 1) a else e)"
  by (simp add: numeral_eq_Suc)

lemmas fl_eval = fl_def float_ulp_def float_exponent_def exp_up_numeral exp_down_numeral pow2_def
  round_half_even_def Let_def

lemma pow2_pos [simp]: "0 < pow2 e"
  by (simp add: pow2_def)

lemma pow2_powr: "pow2 e = 2 powr (real_of_int e)"
  by (simp add: pow2_def powr_real_of_int inverse_eq_divide)

lemma pow2_mono: "a \<le> b \<Longrightarrow> pow2 a \<le> pow2 b"
  by (simp add: pow2_powr)

lemma pow2_inverse: "1 / pow2 e = pow2 (- e)"
  by (simp add: pow2_powr powr_minus_divide)

lemma exp_up_le: "a < pow2 (m + 1) \<Longrightarrow> e \<le> m \<Longrightarrow> exp_up k e a \<le> m"
proof (induction k arbitrary: e)
  case 0
  then show ?case by simp
next
  case (Suc k)
  show ?case
  proof (cases "pow2 (e + 1) \<le> a")
    case True
    with Suc.prems have "pow2 (e + 1) < pow2 (m + 1)" by simp
    then have "e + 1 \<le> m" by (simp add: pow2_powr)
    with Suc True show ?thesis by simp
  next
    case False
    with Suc show ?thesis by simp
  qed
qed

lemma exp_down_le: "exp_down k e a \<le> e"
proof (induction k arbitrary: e)
  case 0
  then show ?case by simp
next
  case (Suc k)
  have "exp_down k (e - 1) a \<le> e - 1" by (rule Suc.IH)
  then show ?case by simp
qed

lemma float_exponent_le:
  assumes "\<bar>x\<bar> < pow2 (m + 1)" "0 \<le> m"
  shows "float_exponent x \<le> m"
proof (cases "1 \<le> \<bar>x\<bar>")
  case True
  with assms exp_up_le [of "\<bar>x\<bar>" m 0 1023] show ?thesis by (simp add: float_exponent_def)
next
  case False
  with assms exp_down_le [of 1021 "- 1" "\<bar>x\<bar>"] show ?thesis by (simp add: float_exponent_def)
qed

lemma round_half_even_le: "y \<le> real_of_int n \<Longrightarrow> round_half_even y \<le> n"
proof -
  assume y: "y \<le> real_of_int n"
  show ?thesis
  proof (cases "y = real_of_int n")
    case True
    then show ?thesis by (simp add: round_half_even_def)
  next
    case False
    with y have "y < real_of_int n" by simp
    then have "\<lfloor>y\<rfloor> < n" by (simp add: floor_less_iff)
    then show ?thesis by (simp add: round_half_even_def Let_def)
  qed
qed

lemma round_half_even_ge: "real_of_int n \<le> y \<Longrightarrow> n \<le> round_half_even y"
proof -
  assume "real_of_int n \<le> y"
  then have "n \<le> \<lfloor>y\<rfloor>" by (simp add: le_floor_iff)
  then show ?thesis by (simp add: round_half_even_def Let_def)
qed

lemma round_half_even_error: "\<bar>real_of_int (round_half_even y) - y\<bar> \<le> 1 / 2"
proof -
  have "real_of_int \<lfloor>y\<rfloor> \<le> y" "y < real_of_int \<lfloor>y\<rfloor> + 1" by linarith+
  then show ?thesis by (auto simp: round_half_even_def Let_def)
qed

lemma float_ulp_pos [simp]: "0 < float_ulp x"
  by (simp add: float_ulp_def)

lemma float_ulp_nonneg [simp]: "0 \<le> float_ulp x"
  by (rule less_imp_le) simp

lemma float_ulp_neq0 [simp]: "float_ulp x \<noteq> 0"
  by (metis float_ulp_pos less_irrefl)

lemma float_ulp_le:
  assumes "\<bar>x\<bar> < pow2 (m + 1)" "0 \<le> m"
  shows "float_ulp x \<le> pow2 (m - 52)"
  using float_exponent_le [OF assms] by (simp add: float_ulp_def pow2_mono)

text \<open>Rounding does not cross a number that is itself a multiple of the spacing.\<close>

lemma fl_le:
  assumes "x \<le> c" "c / float_ulp x \<in> \<int>"
  shows "fl x \<le> c"
proof (cases "x = 0")
  case True
  with assms show ?thesis by (simp add: fl_def)
next
  case False
  from assms(2) obtain n where n: "c / float_ulp x = real_of_int n" by (auto elim: Ints_cases)
  from assms(1) have "x / float_ulp x \<le> c / float_ulp x" by (intro divide_right_mono) simp_all
  with n have "round_half_even (x / float_ulp x) \<le> n" by (simp add: round_half_even_le)
  then have "real_of_int (round_half_even (x / float_ulp x)) * float_ulp x \<le> real_of_int n * float_ulp x"
    by (simp add: mult_right_mono)
  also have "real_of_int n * float_ulp x = c"
    using n by (simp add: nonzero_divide_eq_eq)
  finally show ?thesis using False by (simp add: fl_def)
qed

lemma fl_ge:
  assumes "c \<le> x" "c / float_ulp x \<in> \<int>"
  shows "c \<le> fl x"
proof (cases "x = 0")
  case True
  with assms show ?thesis by (simp add: fl_def)
next
  case False
  from assms(2) obtain n where n: "c / float_ulp x = real_of_int n" by (auto elim: Ints_cases)
  from assms(1) have "c / float_ulp x \<le> x / float_ulp x" by (intro divide_right_mono) simp_all
  with n have "n \<le> round_half_even (x / float_ulp x)" by (simp add: round_half_even_ge)
  then have "real_of_int n * float_ulp x \<le> real_of_int (round_half_even (x / float_ulp x)) * float_ulp x"
    by (simp add: mult_right_mono)
  moreover have "real_of_int n * float_ulp x = c"
    using n by (simp add: nonzero_divide_eq_eq)
  ultimately show ?thesis using False by (simp add: fl_def)
qed

lemma fl_nonneg: "0 \<le> x \<Longrightarrow> 0 \<le> fl x"
  by (rule fl_ge) simp_all

lemma int_over_ulp:
  assumes "float_exponent x \<le> 52"
  shows "real_of_int n / float_ulp x \<in> \<int>"
proof -
  have "real_of_int n / float_ulp x = real_of_int n * (1 / pow2 (float_exponent x - 52))"
    by (simp add: float_ulp_def)
  also have "\<dots> = real_of_int n * pow2 (52 - float_exponent x)"
    by (simp only: pow2_inverse) simp
  also from assms have "\<dots> = real_of_int (n * 2 ^ nat (52 - float_exponent x))"
    by (simp add: pow2_def)
  finally show ?thesis by (metis Ints_of_int)
qed

lemma fl_le_int:
  assumes "\<bar>x\<bar> \<le> real_of_int n" "real_of_int n < pow2 53"
  shows "fl x \<le> real_of_int n"
proof -
  from assms have "\<bar>x\<bar> < pow2 (52 + 1)" by simp
  then have "float_exponent x \<le> 52" by (rule float_exponent_le) simp
  then have "real_of_int n / float_ulp x \<in> \<int>" by (rule int_over_ulp)
  moreover from assms have "x \<le> real_of_int n" by simp
  ultimately show ?thesis by (intro fl_le)
qed

lemma fl_error: "\<bar>fl x - x\<bar> \<le> float_ulp x / 2"
proof (cases "x = 0")
  case True
  then show ?thesis by (simp add: fl_def)
next
  case False
  let ?u = "float_ulp x"
  have "fl x - x = (real_of_int (round_half_even (x / ?u)) - x / ?u) * ?u"
    using False by (simp add: fl_def left_diff_distrib)
  then have "\<bar>fl x - x\<bar> = \<bar>real_of_int (round_half_even (x / ?u)) - x / ?u\<bar> * ?u"
    by (simp add: abs_mult)
  also have "\<dots> \<le> (1 / 2) * ?u"
    by (intro mult_right_mono round_half_even_error) simp
  finally show ?thesis by simp
qed

lemma fl_unit: "0 \<le> x \<Longrightarrow> x \<le> 1 \<Longrightarrow> 0 \<le> fl x \<and> fl x \<le> 1"
  using fl_le_int [of x 1] fl_nonneg [of x] by (simp add: pow2_def)

lemma fl_percent:
  assumes "0 \<le> v" "v \<le> 100"
  shows "0 \<le> fl (fl v / 100) \<and> fl (fl v / 100) \<le> 1"
proof -
  from assms fl_le_int [of v 100] have "fl v \<le> 100" by (simp add: pow2_def)
  moreover from assms have "0 \<le> fl v" by (simp add: fl_nonneg)
  ultimately show ?thesis by (intro fl_unit) simp_all
qed

lemma fl_percent_error:
  assumes "0 \<le> v" "v \<le> 100"
  shows "\<bar>fl (fl v / 100) - v / 100\<bar> \<le> 1 / 2 ^ 52"
proof -
  from assms have "\<bar>v\<bar> < pow2 (6 + 1)" by (simp add: pow2_def)
  then have "float_ulp v \<le> pow2 (6 - 52)" by (rule float_ulp_le) simp
  with fl_error [of v] have a: "\<bar>fl v - v\<bar> \<le> 1 / 2 ^ 47" by (simp add: pow2_def)
  from assms fl_le_int [of v 100] have "fl v \<le> 100" by (simp add: pow2_def)
  moreover from assms have "0 \<le> fl v" by (simp add: fl_nonneg)
  ultimately have "\<bar>fl v / 100\<bar> < pow2 (0 + 1)" by (simp add: pow2_def)
  then have "float_ulp (fl v / 100) \<le> pow2 (0 - 52)" by (rule float_ulp_le) simp
  with fl_error [of "fl v / 100"] have b: "\<bar>fl (fl v / 100) - fl v / 100\<bar> \<le> 1 / 2 ^ 53"
    by (simp add: pow2_def)
  have "\<bar>fl (fl v / 100) - v / 100\<bar> \<le> \<bar>fl (fl v / 100) - fl v / 100\<bar> + \<bar>fl v - v\<bar> / 100"
    by (simp add: abs_le_iff field_simps) linarith
  with a b show ?thesis by simp
qed

text \<open>The percentage that VLC is given lies between 0 and 100.\<close>

lemma vlc_percent_range:
  "0 \<le> py_int (fl (clamp_volume x * 100)) \<and> py_int (fl (clamp_volume x * 100)) \<le> 100"
proof -
  let ?p = "clamp_volume x * 100"
  have r: "0 \<le> ?p" "?p \<le> 100" by (simp_all add: clamp_volume_def)
  then have "0 \<le> fl ?p" by (simp add: fl_nonneg)
  moreover from r fl_le_int [of ?p 100] have "fl ?p \<le> 100" by (simp add: pow2_def)
  ultimately show ?thesis by (simp add: py_int_def floor_le_iff)
qed

subsection \<open>\<open>set_volume\<close>\<close>

lemma set_volume_stored: "volume (fst (set_volume v s)) = fl (fl v / 100)"
  by (simp add: set_volume_def Let_def split: sum.splits)

lemma backend_set_volume_pygame:
  "\<not> (use_vlc b \<and> vlc_player b) \<Longrightarrow>
   backend_set_volume x b =
     Inr (case mixer_fault b of Some e \<Rightarrow> b | None \<Rightarrow> b\<lparr>mixer_volume := clamp_volume x\<rparr>)"
  by (auto simp: backend_set_volume_def mixer_set_volume_def Let_def split: option.splits)

lemma backend_set_volume_vlc:
  "use_vlc b \<and> vlc_player b \<Longrightarrow>
   backend_set_volume x b =
     (case vlc_fault b of
        Some e \<Rightarrow> Inl e
      | None \<Rightarrow> Inr (b\<lparr>vlc_volume := py_int (fl (clamp_volume x * 100))\<rparr>))"
  by (simp add: backend_set_volume_def vlc_audio_set_volume_def Let_def split: option.splits)

lemma set_volume_pygame:
  assumes "\<not> (use_vlc (backend s) \<and> vlc_player (backend s))"
  shows "set_volume v s =
     (s\<lparr>volume := fl (fl v / 100),
         backend := (case mixer_fault (backend s) of
                       Some e \<Rightarrow> backend s
                     | None \<Rightarrow> (backend s)\<lparr>mixer_volume := clamp_volume (fl (fl v / 100))\<rparr>)\<rparr>, None)"
  using assms by (simp add: set_volume_def Let_def backend_set_volume_pygame)

lemma set_volume_vlc:
  assumes "use_vlc (backend s) \<and> vlc_player (backend s)"
  shows "set_volume v s =
     (case vlc_fault (backend s) of
        Some e \<Rightarrow> (s\<lparr>volume := fl (fl v / 100)\<rparr>, Some e)
      | None \<Rightarrow>
          (s\<lparr>volume := fl (fl v / 100),
             backend := (backend s)\<lparr>vlc_volume :=
               py_int (fl (clamp_volume (fl (fl v / 100)) * 100))\<rparr>\<rparr>, None))"
  using assms by (simp add: set_volume_def Let_def backend_set_volume_vlc split: option.splits)

lemma float_examples:
  "fl (fl (- 0.5) / 100) = - (5764607523034235 / 2 ^ 60)"
  "fl (fl 1.7 / 100) = 1224979098644775 / 2 ^ 56"
  "fl (fl 170 / 100) = 7656119366529843 / 2 ^ 52"
  "fl (fl 29 / 100) = 5224175567749775 / 2 ^ 54"
  "fl (fl 50 / 100) = 1 / 2"
  by (simp_all add: fl_eval)

lemma percent_examples:
  "py_int (fl (clamp_volume (5224175567749775 / 2 ^ 54) * 100)) = 28"
  "py_int (fl (clamp_volume (1 / 2) * 100)) = 50"
  by (simp_all add: clamp_volume_def fl_eval py_int_def)

text \<open>
  Claim C4, as stated, fails: the input of \<open>set_volume\<close> is a percentage, and what is stored
  is the input divided by 100, not clamped. The inputs -0.5 and 1.7 are stored as the floats
  -0.005 and 0.017 (negative, and below 1), and the input 170 as the float 1.7 (above 1).
\<close>

theorem set_volume_not_clamped:
  "volume (fst (set_volume (- 0.5) (demo_player pygame_backend))) = - (5764607523034235 / 2 ^ 60) \<and>
   volume (fst (set_volume (- 0.5) (demo_player pygame_backend))) \<noteq> 0 \<and>
   \<bar>volume (fst (set_volume (- 0.5) (demo_player pygame_backend))) - (- 0.005)\<bar> \<le> 1 / 2 ^ 60 \<and>
   volume (fst (set_volume 1.7 (demo_player pygame_backend))) = 1224979098644775 / 2 ^ 56 \<and>
   volume (fst (set_volume 1.7 (demo_player pygame_backend))) \<noteq> 1 \<and>
   \<bar>volume (fst (set_volume 1.7 (demo_player pygame_backend))) - 0.017\<bar> \<le> 1 / 2 ^ 56 \<and>
   volume (fst (set_volume 170 (demo_player pygame_backend))) = 7656119366529843 / 2 ^ 52 \<and>
   1 < volume (fst (set_volume 170 (demo_player pygame_backend)))"
  unfolding set_volume_stored float_examples by simp

text \<open>
  Claim C4, amended. \<open>set_volume\<close> stores, whatever the input is, the float
  \<open>float(value) / 100.0\<close> as the volume of the player: the input rounded to a float, divided
  by 100 and rounded again, not clamped. What it forwards to the backend is that value clamped
  into the interval from 0 to 1: pygame receives the clamped value (a failure of pygame is
  swallowed), VLC receives the clamped value times 100, rounded to a float and truncated to
  an integer, which lies between 0 and 100 (a failure of VLC leaves \<open>set_volume\<close> as an
  exception, after the volume has been stored). For an input between 0 and 100 the stored
  value lies between 0 and 1, is the value forwarded, and differs from the hundredth of the
  input by at most \<open>2 ^ -52\<close>.
\<close>

theorem set_volume_stores_percent:
  "volume (fst (set_volume v s)) = fl (fl v / 100) \<and>
   (\<not> (use_vlc (backend s) \<and> vlc_player (backend s)) \<longrightarrow>
      snd (set_volume v s) = None \<and>
      (mixer_fault (backend s) = None \<longrightarrow>
         mixer_volume (backend (fst (set_volume v s))) = max 0 (min 1 (fl (fl v / 100)))) \<and>
      (mixer_fault (backend s) \<noteq> None \<longrightarrow> backend (fst (set_volume v s)) = backend s)) \<and>
   (use_vlc (backend s) \<and> vlc_player (backend s) \<longrightarrow>
      (vlc_fault (backend s) = None \<longrightarrow>
         snd (set_volume v s) = None \<and>
         vlc_volume (backend (fst (set_volume v s))) =
           py_int (fl (max 0 (min 1 (fl (fl v / 100))) * 100)) \<and>
         0 \<le> vlc_volume (backend (fst (set_volume v s))) \<and>
         vlc_volume (backend (fst (set_volume v s))) \<le> 100) \<and>
      (\<forall>e. vlc_fault (backend s) = Some e \<longrightarrow>
         snd (set_volume v s) = Some e \<and> backend (fst (set_volume v s)) = backend s)) \<and>
   (0 \<le> v \<and> v \<le> 100 \<longrightarrow>
      0 \<le> volume (fst (set_volume v s)) \<and> volume (fst (set_volume v s)) \<le> 1 \<and>
      max 0 (min 1 (fl (fl v / 100))) = volume (fst (set_volume v s)) \<and>
      \<bar>volume (fst (set_volume v s)) - v / 100\<bar> \<le> 1 / 2 ^ 52)"
proof (intro conjI)
  show "volume (fst (set_volume v s)) = fl (fl v / 100)" by (rule set_volume_stored)
  show "\<not> (use_vlc (backend s) \<and> vlc_player (backend s)) \<longrightarrow>
      snd (set_volume v s) = None \<and>
      (mixer_fault (backend s) = None \<longrightarrow>
         mixer_volume (backend (fst (set_volume v s))) = max 0 (min 1 (fl (fl v / 100)))) \<and>
      (mixer_fault (backend s) \<noteq> None \<longrightarrow> backend (fst (set_volume v s)) = backend s)"
  proof
    assume "\<not> (use_vlc (backend s) \<and> vlc_player (backend s))"
    from set_volume_pygame [OF this, of v]
    show "snd (set_volume v s) = None \<and>
      (mixer_fault (backend s) = None \<longrightarrow>
         mixer_volume (backend (fst (set_volume v s))) = max 0 (min 1 (fl (fl v / 100)))) \<and>
      (mixer_fault (backend s) \<noteq> None \<longrightarrow> backend (fst (set_volume v s)) = backend s)"
      by (auto simp: clamp_volume_def)
  qed
  show "use_vlc (backend s) \<and> vlc_player (backend s) \<longrightarrow>
      (vlc_fault (backend s) = None \<longrightarrow>
         snd (set_volume v s) = None \<and>
         vlc_volume (backend (fst (set_volume v s))) =
           py_int (fl (max 0 (min 1 (fl (fl v / 100))) * 100)) \<and>
         0 \<le> vlc_volume (backend (fst (set_volume v s))) \<and>
         vlc_volume (backend (fst (set_volume v s))) \<le> 100) \<and>
      (\<forall>e. vlc_fault (backend s) = Some e \<longrightarrow>
         snd (set_volume v s) = Some e \<and> backend (fst (set_volume v s)) = backend s)"
  proof
    assume "use_vlc (backend s) \<and> vlc_player (backend s)"
    from set_volume_vlc [OF this, of v] vlc_percent_range [of "fl (fl v / 100)"]
    show "(vlc_fault (backend s) = None \<longrightarrow>
         snd (set_volume v s) = None \<and>
         vlc_volume (backend (fst (set_volume v s))) =
           py_int (fl (max 0 (min 1 (fl (fl v / 100))) * 100)) \<and>
         0 \<le> vlc_volume (backend (fst (set_volume v s))) \<and>
         vlc_volume (backend (fst (set_volume v s))) \<le> 100) \<and>
      (\<forall>e. vlc_fault (backend s) = Some e \<longrightarrow>
         snd (set_volume v s) = Some e \<and> backend (fst (set_volume v s)) = backend s)"
      by (auto simp: clamp_volume_def)
  qed
  show "0 \<le> v \<and> v \<le> 100 \<longrightarrow>
      0 \<le> volume (fst (set_volume v s)) \<and> volume (fst (set_volume v s)) \<le> 1 \<and>
      max 0 (min 1 (fl (fl v / 100))) = volume (fst (set_volume v s)) \<and>
      \<bar>volume (fst (set_volume v s)) - v / 100\<bar> \<le> 1 / 2 ^ 52"
  proof
    assume "0 \<le> v \<and> v \<le> 100"
    with fl_percent [of v] fl_percent_error [of v]
    show "0 \<le> volume (fst (set_volume v s)) \<and> volume (fst (set_volume v s)) \<le> 1 \<and>
      max 0 (min 1 (fl (fl v / 100))) = volume (fst (set_volume v s)) \<and>
      \<bar>volume (fst (set_volume v s)) - v / 100\<bar> \<le> 1 / 2 ^ 52"
      by (simp add: set_volume_stored)
  qed
qed

theorem set_volume_stores_percent_witness:
  "volume (fst (set_volume 170 (demo_player pygame_backend))) = 7656119366529843 / 2 ^ 52 \<and>
   mixer_volume (backend (fst (set_volume 170 (demo_player pygame_backend)))) = 1 \<and>
   snd (set_volume 170 (demo_player pygame_backend)) = None \<and>
   volume (fst (set_volume 50 (demo_player vlc_backend))) = 1 / 2 \<and>
   vlc_volume (backend (fst (set_volume 50 (demo_player vlc_backend)))) = 50 \<and>
   volume (fst (set_volume 29 (demo_player vlc_backend))) = 5224175567749775 / 2 ^ 54 \<and>
   vlc_volume (backend (fst (set_volume 29 (demo_player vlc_backend)))) = 28 \<and>
   snd (set_volume 29 (demo_player vlc_backend)) = None"
proof -
  have p: "\<not> (use_vlc (backend (demo_player pygame_backend)) \<and>
              vlc_player (backend (demo_player pygame_backend)))"
    "mixer_fault (backend (demo_player pygame_backend)) = None"
    by (simp_all add: demo_player_def pygame_backend_def)
  have v: "use_vlc (backend (demo_player vlc_backend)) \<and> vlc_player (backend (demo_player vlc_backend))"
    "vlc_fault (backend (demo_player vlc_backend)) = None"
    by (simp_all add: demo_player_def vlc_backend_def pygame_backend_def)
  note e = float_examples percent_examples [unfolded clamp_volume_def]
  from set_volume_stores_percent [of 170 "demo_player pygame_backend"]
    set_volume_stores_percent [of 50 "demo_player vlc_backend"]
    set_volume_stores_percent [of 29 "demo_player vlc_backend"] p v e
  show ?thesis by simp
qed

section \<open>The progress tick\<close>

lemma update_progress_frame:
  "after_calls (update_progress w s) = after_calls s @ [(100, UpdateProgress)] \<and>
   is_playing (update_progress w s) = is_playing s \<and>
   is_paused (update_progress w s) = is_paused s \<and>
   backend (update_progress w s) = backend s \<and>
   current_index (update_progress w s) = current_index s \<and>
   current_playlist (update_progress w s) = current_playlist s \<and>
   messagebox (update_progress w s) = messagebox s"
  by (auto simp: update_progress_def progress_body_def Let_def root_after_def
      split: sum.splits if_splits)

lemma update_progress_tick:
  assumes "is_playing s" and "backend_is_busy (backend s)"
  shows "progress_var (update_progress w s) =
     (case backend_get_pos_seconds (backend s) of
        Inl e \<Rightarrow> progress_var s
      | Inr pos \<Rightarrow>
          (case backend_get_duration_seconds w s of
             Inl e \<Rightarrow> progress_var s
           | Inr dur \<Rightarrow> if 0 < dur then min (pos / dur * 100) 100 else progress_var s))"
  using assms
  by (simp add: update_progress_def progress_body_def Let_def root_after_def split: sum.splits)

lemma progress_player_facts:
  "is_playing progress_player" "backend_is_busy (backend progress_player)"
  "backend_get_pos_seconds (backend progress_player) = Inr 50"
  "progress_var progress_player = 50"
  by (simp_all add: progress_player_def demo_player_def pygame_backend_def backend_is_busy_def
      backend_get_pos_seconds_def ms_to_seconds_def)

lemma progress_player_duration:
  "backend_get_duration_seconds untagged_world progress_player = Inr 0"
  "backend_get_duration_seconds tagged_world progress_player = Inr 200"
  by (simp_all add: progress_player_def demo_player_def pygame_backend_def
      backend_get_duration_seconds_def py_index_def quiet_world_def tagged_world_def
      untagged_world_def)

text \<open>
  Claim C8, as stated, fails where the duration is 0 or unknown: \<open>update_progress\<close> then
  publishes nothing, so the progress variable keeps the value it had. Here pygame plays a
  file without length information while the variable shows 50; after the tick it still
  shows 50, not 0.
\<close>

theorem update_progress_keeps_stale_value:
  "is_playing progress_player \<and> backend_is_busy (backend progress_player) \<and>
   backend_get_pos_seconds (backend progress_player) = Inr 50 \<and>
   backend_get_duration_seconds untagged_world progress_player = Inr 0 \<and>
   progress_var progress_player = 50 \<and>
   progress_var (update_progress untagged_world progress_player) = 50 \<and>
   progress_var (update_progress untagged_world progress_player) \<noteq> 0"
  using update_progress_tick [of progress_player untagged_world]
  by (simp add: progress_player_facts progress_player_duration)

text \<open>
  Claim C8, amended. On a tick with the player playing and the backend busy: when both
  queries answer and the duration is positive, the progress variable becomes position
  divided by duration, as a percentage capped at 100; when a query raises or the duration is
  not positive, the progress variable keeps its value. The tick itself raises nothing: it
  always returns, registers itself again after 100 ms, and changes nothing else.
\<close>

theorem update_progress_publishes:
  assumes "is_playing s" and "backend_is_busy (backend s)"
  shows "(\<forall>pos dur. backend_get_pos_seconds (backend s) = Inr pos \<and>
            backend_get_duration_seconds w s = Inr dur \<and> 0 < dur \<longrightarrow>
            progress_var (update_progress w s) = min (pos / dur * 100) 100) \<and>
         ((\<exists>e. backend_get_pos_seconds (backend s) = Inl e) \<or>
          (\<exists>e. backend_get_duration_seconds w s = Inl e) \<or>
          (\<exists>dur. backend_get_duration_seconds w s = Inr dur \<and> dur \<le> 0) \<longrightarrow>
            progress_var (update_progress w s) = progress_var s) \<and>
         after_calls (update_progress w s) = after_calls s @ [(100, UpdateProgress)] \<and>
         is_playing (update_progress w s) = is_playing s \<and>
         is_paused (update_progress w s) = is_paused s \<and>
         backend (update_progress w s) = backend s \<and>
         current_index (update_progress w s) = current_index s \<and>
         current_playlist (update_progress w s) = current_playlist s \<and>
         messagebox (update_progress w s) = messagebox s"
proof -
  have "(\<forall>pos dur. backend_get_pos_seconds (backend s) = Inr pos \<and>
            backend_get_duration_seconds w s = Inr dur \<and> 0 < dur \<longrightarrow>
            progress_var (update_progress w s) = min (pos / dur * 100) 100)"
    by (simp add: update_progress_tick [OF assms])
  moreover have "(\<exists>e. backend_get_pos_seconds (backend s) = Inl e) \<or>
          (\<exists>e. backend_get_duration_seconds w s = Inl e) \<or>
          (\<exists>dur. backend_get_duration_seconds w s = Inr dur \<and> dur \<le> 0) \<longrightarrow>
            progress_var (update_progress w s) = progress_var s"
    by (auto simp: update_progress_tick [OF assms] split: sum.splits)
  ultimately show ?thesis
    using update_progress_frame [of w s] by blast
qed

theorem update_progress_publishes_witness:
  "is_playing progress_player \<and> backend_is_busy (backend progress_player) \<and>
   backend_get_pos_seconds (backend progress_player) = Inr 50 \<and>
   backend_get_duration_seconds tagged_world progress_player = Inr 200 \<and>
   progress_var (update_progress tagged_world progress_player) = 25 \<and>
   after_calls (update_progress tagged_world progress_player) =
     [(100, UpdateProgress), (100, UpdateProgress)] \<and>
   progress_var
     (update_progress tagged_world
        (progress_player\<lparr>backend := (backend progress_player)\<lparr>mixer_pos := Inl (PygameError [])\<rparr>\<rparr>)) = 50"
proof -
  let ?f = "progress_player\<lparr>backend := (backend progress_player)\<lparr>mixer_pos := Inl (PygameError [])\<rparr>\<rparr>"
  have f: "is_playing ?f" "backend_is_busy (backend ?f)"
    "backend_get_pos_seconds (backend ?f) = Inl (PygameError [])" "progress_var ?f = 50"
    by (simp_all add: progress_player_def demo_player_def pygame_backend_def backend_is_busy_def
      backend_get_pos_seconds_def)
  note a = update_progress_publishes [OF progress_player_facts(1,2), of tagged_world]
  note b = update_progress_publishes [OF f(1,2), of tagged_world]
  from a have "progress_var (update_progress tagged_world progress_player) = min (50 / 200 * 100) 100"
    using progress_player_facts(3) progress_player_duration(2) by simp
  then have p: "progress_var (update_progress tagged_world progress_player) = 25" by simp
  from a have "after_calls (update_progress tagged_world progress_player) =
      after_calls progress_player @ [(100, UpdateProgress)]"
    by blast
  then have c: "after_calls (update_progress tagged_world progress_player) =
     [(100, UpdateProgress), (100, UpdateProgress)]"
    by (simp add: progress_player_def demo_player_def)
  from b f(3) have "progress_var (update_progress tagged_world ?f) = progress_var ?f" by blast
  with f(4) have q: "progress_var (update_progress tagged_world ?f) = 50" by simp
  from p c q show ?thesis
    by (simp add: progress_player_facts progress_player_duration)
qed

section \<open>The end-of-song check and the active backend\<close>

lemma vlc_backend_facts:
  "use_vlc vlc_backend" "vlc_instance vlc_backend" "vlc_player vlc_backend"
  "vlc_fault vlc_backend = None" "mixer_busy vlc_backend = Inr False"
  by (simp_all add: vlc_backend_def pygame_backend_def)

lemma demo_player_facts:
  "backend (demo_player b) = b" "current_playlist (demo_player b) = [song_a, song_b, song_c]"
  "current_index (demo_player b) = 2" "\<not> is_playing (demo_player b)"
  by (simp_all add: demo_player_def)

text \<open>
  Claim C3 does not hold of the code: \<open>check_song_end\<close> asks the pygame mixer whether it is
  busy, whichever backend is active, while \<open>_backend_is_busy\<close> (used by \<open>update_progress\<close>) asks
  the active one. With VLC playing a track the active backend is busy and the player is
  playing, and still \<open>check_song_end\<close> does what \<open>next_song\<close> does; as the mixer stays idle, the
  chain of nested calls does not complete.
\<close>

theorem check_song_end_ignores_vlc:
  "is_playing vlc_playing_player \<and>
   backend_is_busy (backend vlc_playing_player) \<and>
   (\<forall>n. check_song_end n quiet_world vlc_playing_player =
          map_option Inr (next_song n quiet_world vlc_playing_player)) \<and>
   (\<forall>n. check_song_end n quiet_world vlc_playing_player = None)"
proof -
  let ?s = vlc_playing_player
  have f: "is_playing ?s" "backend_is_busy (backend ?s)" "mixer_busy (backend ?s) = Inr False"
    by (simp_all add: vlc_playing_player_def demo_player_def vlc_backend_def pygame_backend_def
        backend_is_busy_def)
  have c: "check_song_end n quiet_world ?s = map_option Inr (next_song n quiet_world ?s)" for n
    using f by (simp add: check_song_end.simps)
  have ne: "current_playlist ?s \<noteq> []"
    by (simp add: vlc_playing_player_def demo_player_def)
  have "play_song n quiet_world
          (?s\<lparr>current_index := (current_index ?s + 1) mod int (length (current_playlist ?s))\<rparr>) = None"
    for n
    by (rule play_song_vlc_never_completes)
       (simp_all add: vlc_playing_player_def demo_player_def vlc_backend_def pygame_backend_def
          quiet_world_def)
  then have "next_song n quiet_world ?s = None" for n
    by (simp add: next_song_nonempty [OF ne])
  with c f show ?thesis by simp
qed

text \<open>
  Claim C7 does not hold of the code when VLC is the backend, for the same reason: the
  \<open>play_song\<close> inside \<open>next_song\<close> ends in \<open>check_song_end\<close>, which finds the pygame mixer idle
  and calls \<open>next_song\<close> again. From the cursor 2 in a view of three songs, one call of
  \<open>next_song\<close> is the call of \<open>next_song\<close> in a state where the cursor is already 0 and the
  first song plays; no number of nested activations lets it complete, so the cursor does
  not come to rest one step further, and three calls in a row do not complete either.
  (With pygame as the backend the cursor is back after as many calls as the view has
  entries: \<open>next_song_closure_pygame\<close>.)
\<close>

theorem next_song_vlc_never_settles:
  "current_index (demo_player vlc_backend) = 2 \<and>
   (\<exists>s1. current_index s1 = 0 \<and> is_playing s1 \<and> vlc_is_playing (backend s1) = Inr 1 \<and>
      (\<forall>n. next_song (Suc n) quiet_world (demo_player vlc_backend) =
             next_song n quiet_world s1)) \<and>
   (\<forall>n. next_song n quiet_world (demo_player vlc_backend) = None) \<and>
   (\<forall>n. next_song_times (length (current_playlist (demo_player vlc_backend))) n quiet_world
          (demo_player vlc_backend) = None)"
proof -
  let ?s = "demo_player vlc_backend"
  let ?t = "?s\<lparr>current_index := (current_index ?s + 1) mod int (length (current_playlist ?s))\<rparr>"
  have ne: "current_playlist ?s \<noteq> []" by (simp add: demo_player_facts)
  have i0: "current_index ?t = 0" by (simp add: demo_player_facts)
  have none: "play_song n quiet_world ?t = None" for n
    by (rule play_song_vlc_never_completes)
       (simp_all add: demo_player_facts vlc_backend_facts quiet_world_def)
  have nx: "next_song n quiet_world ?s = None" for n
    by (simp only: next_song_nonempty [OF ne] none)
  have tm: "next_song_times (length (current_playlist ?s)) n quiet_world ?s = None" for n
    by (simp add: demo_player_facts(2) numeral_3_eq_3 nx)
  have tr: "current_track ?t = Inr song_a"
    by (simp add: current_track_def reset_stale_cursor_def demo_player_facts py_index_def)
  let ?b2 = "vlc_backend\<lparr>vlc_is_playing := Inr 1, vlc_media := Some song_a\<rparr>"
  let ?u = "?t\<lparr>backend := ?b2, is_playing := True, is_paused := False,
          current_song_label := song_label_text quiet_world song_a\<rparr>"
  have st: "backend_stop (backend ?t) = Inr (vlc_backend\<lparr>vlc_is_playing := Inr 0\<rparr>)"
    by (simp add: backend_stop_def vlc_stop_def demo_player_facts vlc_backend_facts)
  have pl: "backend_play quiet_world song_a (vlc_backend\<lparr>vlc_is_playing := Inr 0\<rparr>) = Inr ?b2"
    by (simp add: backend_play_def vlc_play_def Let_def vlc_backend_facts quiet_world_def)
  have rs: "reset_stale_cursor ?t = ?t"
    by (simp add: reset_stale_cursor_def demo_player_facts)
  have ne0: "current_playlist ?t \<noteq> []" by (simp add: demo_player_facts)
  have ex: "path_exists quiet_world song_a" by (simp add: quiet_world_def)
  have ce: "check_song_end n quiet_world ?u = map_option Inr (next_song n quiet_world ?u)" for n
    by (simp add: check_song_end.simps vlc_backend_facts)
  have "next_song (Suc n) quiet_world ?s = next_song n quiet_world ?u" for n
  proof -
    have "next_song (Suc n) quiet_world ?s = play_song (Suc n) quiet_world ?t"
      by (rule next_song_nonempty [OF ne])
    also have "\<dots> = next_song n quiet_world ?u"
      using ex st pl
      by (simp add: play_song_resolved [OF ne0 tr] rs ce split: option.splits)
    finally show ?thesis .
  qed
  moreover have "current_index ?u = 0 \<and> is_playing ?u \<and> vlc_is_playing (backend ?u) = Inr 1"
    by (simp add: demo_player_facts)
  ultimately have "\<exists>s1. current_index s1 = 0 \<and> is_playing s1 \<and> vlc_is_playing (backend s1) = Inr 1 \<and>
      (\<forall>n. next_song (Suc n) quiet_world ?s = next_song n quiet_world s1)"
    by blast
  with nx tm show ?thesis by (simp add: demo_player_facts)
qed

end
